theory Spec2Isabelle
  imports Main "HOL-Library.List_Lexorder" "HOL-Library.Char_ord" "HOL-Library.AList"
begin

section \<open>The Donately client: request pipeline, error classification, retry\<close>

text \<open>
  A shallow embedding of the Go package \<^verbatim>\<open>donately\<close> (the client source and
  \<^verbatim>\<open>campaigns.go\<close>). Go strings are byte strings (\<^typ>\<open>string\<close>, one \<^typ>\<open>char\<close> per byte).
  Go's \<^verbatim>\<open>int\<close> and \<^verbatim>\<open>int64\<close> are modelled by \<^typ>\<open>int\<close>: the client only compares them
  with zero and prints them in decimal, it never computes with them.
  A \<^verbatim>\<open>context.Context\<close> only influences what the transport answers and when the retry
  loop gives up; both are behaviours of the environment below, so the parameter is dropped.
\<close>

subsection \<open>Errors\<close>

text \<open>
  The three dynamic error types that occur: \<^verbatim>\<open>errors.New\<close> / \<^verbatim>\<open>fmt.Errorf\<close> without
  \<^verbatim>\<open>%w\<close> (a plain text), \<^verbatim>\<open>fmt.Errorf\<close> with \<^verbatim>\<open>%w\<close> (a text and the wrapped error), and
  the package's own \<^verbatim>\<open>retryableError{Err, canRetry}\<close>.
\<close>

datatype go_error =
    errorString string
  | wrapError string go_error
  | retryableError go_error bool

fun Error :: "go_error \<Rightarrow> string" where
  "Error (errorString s) = s"
| "Error (wrapError msg err) = msg"
| "Error (retryableError err b) = Error err"

fun Unwrap :: "go_error \<Rightarrow> go_error option" where
  "Unwrap (errorString s) = None"
| "Unwrap (wrapError msg err) = Some err"
| "Unwrap (retryableError err b) = Some err"

definition errors_New :: "string \<Rightarrow> go_error" where
  "errors_New s = errorString s"

text \<open>\<^verbatim>\<open>fmt.Errorf(prefix + "%w", err)\<close>: the text is the prefix followed by the text of \<^verbatim>\<open>err\<close>.\<close>

definition fmt_Errorf_w :: "string \<Rightarrow> go_error \<Rightarrow> go_error" where
  "fmt_Errorf_w prefix err = wrapError (prefix @ Error err) err"

text \<open>
  The gate \<^verbatim>\<open>re, ok := err.(retryable); ok && re.CanRetry()\<close>. The type assertion looks at
  the dynamic type of \<^verbatim>\<open>err\<close> itself (it does not unwrap), and fails on a nil interface.
\<close>

fun CanRetry :: "go_error \<Rightarrow> bool option" where
  "CanRetry (retryableError err b) = Some b"
| "CanRetry (errorString s) = None"
| "CanRetry (wrapError msg err) = None"

definition retry_gate :: "go_error option \<Rightarrow> bool" where
  "retry_gate err = (case err of None \<Rightarrow> False
                     | Some e \<Rightarrow> (case CanRetry e of None \<Rightarrow> False | Some b \<Rightarrow> b))"

text \<open>What a Go function call yields: its result values, or a run-time panic.\<close>

datatype 'a returned = Return 'a "go_error option" | Panic string

definition nil_dereference :: string where
  "nil_dereference = ''runtime error: invalid memory address or nil pointer dereference''"

subsection \<open>Data model\<close>

text \<open>
  Modelled from the spec: the declarations of \<^verbatim>\<open>Account\<close>, \<^verbatim>\<open>Person\<close>, \<^verbatim>\<open>Donation\<close> and
  \<^verbatim>\<open>Subscription\<close> are not among the sources (resource records are "opaque to the core",
  identified by a string ID). The records below carry the fields that the client code and
  its tests read; whatever else the structs hold only passes through the JSON codec.
\<close>

record Account =
  ID :: string
  Title :: string

record Person =
  ID :: string
  FirstName :: string
  LastName :: string
  Email :: string
  PhoneNumber :: string
  StreetAddress :: string
  StreetAddress2 :: string
  City :: string
  State :: string
  ZipCode :: string
  Country :: string
  Accounts :: "Account list"

record Subscription =
  ID :: string

text \<open>
  \<^verbatim>\<open>campaigns.go\<close>. Pointer fields are options. The client never inspects a \<^verbatim>\<open>float64\<close>,
  a \<^verbatim>\<open>time.Time\<close> or the \<^verbatim>\<open>any\<close> of \<^verbatim>\<open>MetaData\<close>; they are carried as plain data
  (the bit pattern, the instant's two counters, the JSON text of the value).
\<close>

datatype float64 = Float64 nat
datatype time_Time = Time nat int
datatype go_any = Nil | Dynamic string

record CampaignPhotoSizes =
  Original :: "string option"
  Medium :: "string option"
  MediumV2 :: "string option"
  Average :: "string option"
  Small :: "string option"
  Thumb :: "string option"
  SquareV2 :: "string option"
  Icon :: "string option"

record CampaignCoverPhotoSizes =
  Original :: "string option"
  Large :: "string option"

record CampaignImages =
  Photo :: CampaignPhotoSizes
  CoverPhoto :: CampaignCoverPhotoSizes

record Campaign =
  ID :: string
  Title :: string
  Slug :: string
  Type :: string
  URL :: string
  Status :: string
  Permalink :: string
  Description :: "string option"
  Content :: "string option"
  Created :: int
  Updated :: int
  StartDate :: "string option"
  EndDate :: "string option"
  GoalInCents :: int
  AmountRaisedInCents :: int
  PercentFunded :: float64
  DonorsCount :: int
  Images :: CampaignImages
  Account :: Account
  FormID :: string
  MetaData :: go_any
  InternalID :: int
  CreatedAt :: time_Time
  UpdatedAt :: time_Time
  Recurring :: "bool option"
  FundraiserGoal :: "int option"
  DonationAmount :: "int option"

record Donation =
  ID :: string
  AmountInCents :: int
  DonationType :: string
  Account :: Account
  Campaign :: Campaign
  Person :: Person
  Comment :: string
  Anonymous :: bool
  OnBehalfOf :: string
  Status :: string

text \<open>The response envelope. \<^verbatim>\<open>Data\<close> is a \<^verbatim>\<open>json.RawMessage\<close>: raw bytes.\<close>

record APIResponse =
  Data :: string
  Type :: string
  Message :: string
  Code :: string
  RequestID :: string

record clientOption =
  apiKey :: string
  baseURL :: string
  donatelyAPIVersion :: string
  doRetry :: bool
  debug :: bool

text \<open>\<^verbatim>\<open>&http.Client{}\<close>; the pointer is nil in the zero-valued client.\<close>

datatype http_Client = http_Client

record donatelyClient =
  opts :: clientOption
  client :: "http_Client option"

text \<open>Zero values.\<close>

definition zero_Account :: Account where
  "zero_Account = \<lparr>Account.ID = '''', Account.Title = ''''\<rparr>"

definition zero_Person :: Person where
  "zero_Person = \<lparr>Person.ID = '''', FirstName = '''', LastName = '''', Email = '''',
     PhoneNumber = '''', StreetAddress = '''', StreetAddress2 = '''', City = '''', State = '''',
     ZipCode = '''', Country = '''', Accounts = []\<rparr>"

definition zero_Subscription :: Subscription where
  "zero_Subscription = \<lparr>Subscription.ID = ''''\<rparr>"

definition zero_CampaignImages :: CampaignImages where
  "zero_CampaignImages =
     \<lparr>Photo = \<lparr>CampaignPhotoSizes.Original = None, Medium = None, MediumV2 = None,
                Average = None, Small = None, Thumb = None, SquareV2 = None, Icon = None\<rparr>,
      CoverPhoto = \<lparr>CampaignCoverPhotoSizes.Original = None, Large = None\<rparr>\<rparr>"

definition zero_Campaign :: Campaign where
  "zero_Campaign = \<lparr>Campaign.ID = '''', Campaign.Title = '''', Slug = '''', Campaign.Type = '''',
     URL = '''', Campaign.Status = '''', Permalink = '''', Description = None, Content = None,
     Created = 0, Updated = 0, StartDate = None, EndDate = None, GoalInCents = 0,
     AmountRaisedInCents = 0, PercentFunded = Float64 0, DonorsCount = 0,
     Images = zero_CampaignImages, Campaign.Account = zero_Account, FormID = '''',
     MetaData = Nil, InternalID = 0, CreatedAt = Time 0 0, UpdatedAt = Time 0 0,
     Recurring = None, FundraiserGoal = None, DonationAmount = None\<rparr>"

definition zero_Donation :: Donation where
  "zero_Donation = \<lparr>Donation.ID = '''', AmountInCents = 0, DonationType = '''',
     Donation.Account = zero_Account, Campaign = zero_Campaign, Person = zero_Person,
     Comment = '''', Anonymous = False, OnBehalfOf = '''', Donation.Status = ''''\<rparr>"

definition zero_clientOption :: clientOption where
  "zero_clientOption = \<lparr>apiKey = '''', baseURL = '''', donatelyAPIVersion = '''',
     doRetry = False, debug = False\<rparr>"

definition zero_donatelyClient :: donatelyClient where
  "zero_donatelyClient = \<lparr>opts = zero_clientOption, client = None\<rparr>"

subsection \<open>Library functions with a byte-level definition\<close>

text \<open>\<^verbatim>\<open>strconv.Itoa\<close>, also \<^verbatim>\<open>%d\<close> of \<^verbatim>\<open>fmt\<close>: decimal digits, a minus sign when negative.\<close>

definition digit_char :: "nat \<Rightarrow> char" where
  "digit_char n = char_of (48 + n)"

fun digits :: "nat \<Rightarrow> string" where
  "digits n = (if n < 10 then [digit_char n] else digits (n div 10) @ [digit_char (n mod 10)])"

declare digits.simps [simp del]

definition Itoa :: "int \<Rightarrow> string" where
  "Itoa i = (if i < 0 then CHR ''-'' # digits (nat (- i)) else digits (nat i))"

text \<open>
  \<^verbatim>\<open>net/url\<close>: \<^verbatim>\<open>shouldEscape\<close> and \<^verbatim>\<open>escape\<close> for the two modes the client uses,
  \<^verbatim>\<open>PathEscape\<close> (a path segment) and \<^verbatim>\<open>QueryEscape\<close> (a query component).
\<close>

datatype encoding = encodePathSegment | encodeQueryComponent

definition shouldEscape :: "char \<Rightarrow> encoding \<Rightarrow> bool" where
  "shouldEscape c mode =
     (if (CHR ''a'' \<le> c \<and> c \<le> CHR ''z'') \<or> (CHR ''A'' \<le> c \<and> c \<le> CHR ''Z'')
          \<or> (CHR ''0'' \<le> c \<and> c \<le> CHR ''9'') then False
      else if c \<in> set ''-_.~'' then False
      else if c \<in> set ''$&+,/:;=?@'' then
        (case mode of
           encodePathSegment \<Rightarrow> c = CHR ''/'' \<or> c = CHR '';'' \<or> c = CHR '','' \<or> c = CHR ''?''
         | encodeQueryComponent \<Rightarrow> True)
      else True)"

definition upperhex :: string where
  "upperhex = ''0123456789ABCDEF''"

fun escape :: "string \<Rightarrow> encoding \<Rightarrow> string" where
  "escape [] mode = []"
| "escape (c # s) mode =
     (if shouldEscape c mode then
        (if c = CHR '' '' \<and> mode = encodeQueryComponent then ''+''
         else [CHR ''%'', upperhex ! (of_char c div 16), upperhex ! (of_char c mod 16)])
      else [c]) @ escape s mode"

definition PathEscape :: "string \<Rightarrow> string" where
  "PathEscape s = escape s encodePathSegment"

definition QueryEscape :: "string \<Rightarrow> string" where
  "QueryEscape s = escape s encodeQueryComponent"

text \<open>
  \<^verbatim>\<open>url.Values\<close> is a \<^verbatim>\<open>map[string][]string\<close>: an association list with one entry per
  key. \<^verbatim>\<open>Set\<close> replaces the values of a key, \<^verbatim>\<open>Encode\<close> writes
  \<^verbatim>\<open>key=value\<close> pairs joined by \<^verbatim>\<open>&\<close>, the keys sorted.
\<close>

type_synonym Values = "(string \<times> string list) list"

definition Values_Set :: "string \<Rightarrow> string \<Rightarrow> Values \<Rightarrow> Values" where
  "Values_Set key val v = AList.update key [val] v"

fun join_amp :: "string list \<Rightarrow> string" where
  "join_amp [] = []"
| "join_amp [p] = p"
| "join_amp (p # ps) = p @ ''&'' @ join_amp ps"

definition Values_Encode :: "Values \<Rightarrow> string" where
  "Values_Encode v =
     join_amp (concat (map (\<lambda>(k, vs). map (\<lambda>x. QueryEscape k @ ''='' @ QueryEscape x) vs)
                           (sort_key fst v)))"

text \<open>
  \<^verbatim>\<open>%v\<close> of an \<^verbatim>\<open>APIResponse\<close> value: the fields between braces, separated by spaces;
  the raw message is a byte slice and prints as its decimal bytes between brackets.
\<close>

fun join_space :: "string list \<Rightarrow> string" where
  "join_space [] = []"
| "join_space [p] = p"
| "join_space (p # ps) = p @ '' '' @ join_space ps"

definition fmt_v_APIResponse :: "APIResponse \<Rightarrow> string" where
  "fmt_v_APIResponse r =
     ''{'' @ ''['' @ join_space (map (\<lambda>b. digits (of_char b)) (Data r)) @ '']''
       @ '' '' @ APIResponse.Type r @ '' '' @ Message r @ '' '' @ Code r
       @ '' '' @ RequestID r @ ''}''"

subsection \<open>Requests, the environment, the observable world\<close>

record request =
  Method :: string
  URL :: string
  Header :: "(string \<times> string) list"
  Body :: "string option"

text \<open>A response as the client reads it: the status code and what \<^verbatim>\<open>io.ReadAll\<close> gives.\<close>

record response =
  StatusCode :: int
  Body :: "go_error + string"

text \<open>The \<^verbatim>\<open>body any\<close> argument of a request: nil, or one of the values the client passes.\<close>

datatype body =
    NoBody
  | ValuesBody Values
  | SubscriptionBody Subscription
  | CampaignBody Campaign

text \<open>
  Everything the client calls but does not define is a parameter: the JSON codec
  (\<^verbatim>\<open>encoding/json\<close>), the Unicode-aware \<^verbatim>\<open>strings.TrimSpace\<close> and \<^verbatim>\<open>strings.ToLower\<close>,
  URL parsing inside \<^verbatim>\<open>http.NewRequestWithContext\<close> and \<^verbatim>\<open>URL.RequestURI\<close>, the
  transport behind \<^verbatim>\<open>http.Client.Do\<close> (its answer may depend on the requests issued so
  far), and the give-up decisions of \<^verbatim>\<open>backoff.Retry\<close>.
\<close>

record env =
  json_Marshal :: "body \<Rightarrow> go_error + string"
  json_Unmarshal_APIResponse :: "string \<Rightarrow> go_error + APIResponse"
  json_Unmarshal_Person :: "string \<Rightarrow> go_error + Person"
  json_Unmarshal_People :: "string \<Rightarrow> go_error + Person list"
  json_Unmarshal_Donation :: "string \<Rightarrow> go_error + Donation"
  json_Unmarshal_Donations :: "string \<Rightarrow> go_error + Donation list"
  json_Unmarshal_Subscription :: "string \<Rightarrow> go_error + Subscription"
  json_Unmarshal_Campaign :: "string \<Rightarrow> go_error + Campaign"
  strings_TrimSpace :: "string \<Rightarrow> string"
  strings_ToLower :: "string \<Rightarrow> string"
  http_NewRequest :: "string \<Rightarrow> string \<Rightarrow> go_error option"
  url_RequestURI :: "string \<Rightarrow> string"
  client_Do :: "request list \<Rightarrow> request \<Rightarrow> go_error + response"
  backoff_stop :: "nat \<Rightarrow> go_error \<Rightarrow> go_error option"
  backoff_tries :: nat

text \<open>What an observer sees: the requests handed to the transport, and standard output.\<close>

record world =
  sent :: "request list"
  stdout :: "string list"

subsection \<open>The request executor\<close>

text \<open>Lines 186-202 of the client: the request body for a content type.\<close>

definition reqBody :: "env \<Rightarrow> body \<Rightarrow> string \<Rightarrow> go_error + string option" where
  "reqBody env body contentType =
     (if body \<noteq> NoBody then
        (if contentType = ''application/x-www-form-urlencoded'' then
           (case body of
              ValuesBody formData \<Rightarrow> Inr (Some (Values_Encode formData))
            | _ \<Rightarrow> Inl (errorString ''body must be url.Values for form-encoded requests''))
         else
           (case json_Marshal env body of
              Inl err \<Rightarrow> Inl (fmt_Errorf_w ''failed to marshal request body: '' err)
            | Inr jsonBody \<Rightarrow> Inr (Some jsonBody)))
      else Inr None)"

text \<open>Lines 204-212: the request for the absolute URL, with its four headers.\<close>

definition build_request ::
  "donatelyClient \<Rightarrow> string \<Rightarrow> string \<Rightarrow> string \<Rightarrow> string option \<Rightarrow> request" where
  "build_request c method endpoint contentType rb =
     \<lparr>Method = method, URL = baseURL (opts c) @ endpoint,
      Header = [(''Donately-Version'', donatelyAPIVersion (opts c)),
                (''Authorization'', ''Bearer '' @ apiKey (opts c)),
                (''Content-Type'', contentType),
                (''Accept'', ''application/json'')],
      request.Body = rb\<rparr>"

definition makeRequestWithContentType ::
  "env \<Rightarrow> donatelyClient \<Rightarrow> string \<Rightarrow> string \<Rightarrow> body \<Rightarrow> string \<Rightarrow> world
     \<Rightarrow> APIResponse option returned \<times> world" where
  "makeRequestWithContentType env c method endpoint body contentType w =
     (case reqBody env body contentType of
        Inl err \<Rightarrow> (Return None (Some err), w)
      | Inr rb \<Rightarrow>
     (case http_NewRequest env method (baseURL (opts c) @ endpoint) of
        Some err \<Rightarrow> (Return None (Some (fmt_Errorf_w ''failed to create request: '' err)), w)
      | None \<Rightarrow>
     (let req = build_request c method endpoint contentType rb;
          requestLine = method @ '' '' @ url_RequestURI env (request.URL req) @ '' '' @ ''HTTP/1.1'';
          w1 = (if debug (opts c)
                then w\<lparr>stdout := stdout w @ [''Issuing request '' @ requestLine @ [CHR 0x0A]]\<rparr>
                else w)
      in
     (case client c of
        None \<Rightarrow> (Panic nil_dereference, w1)
      | Some transport \<Rightarrow>
     (let w2 = w1\<lparr>sent := sent w1 @ [req]\<rparr> in
     (case client_Do env (sent w1) req of
        Inl err \<Rightarrow> (Return None (Some (fmt_Errorf_w ''failed to make request: '' err)), w2)
      | Inr resp \<Rightarrow>
     (case response.Body resp of
        Inl err \<Rightarrow> (Return None (Some (fmt_Errorf_w ''failed to read response body: '' err)), w2)
      | Inr respBody \<Rightarrow>
     (case json_Unmarshal_APIResponse env respBody of
        Inl err \<Rightarrow>
          (let rawBody = respBody;
               errorReturned = fmt_Errorf_w ''failed to unmarshal response: '' err
           in if ''retry later'' = strings_ToLower env (strings_TrimSpace env rawBody)
              then (Return None (Some (retryableError errorReturned True)), w2)
              else (Return None (Some errorReturned), w2))
      | Inr apiResp \<Rightarrow>
          if APIResponse.Type apiResp \<noteq> '''' \<and> Message apiResp \<noteq> '''' \<and> Code apiResp \<noteq> ''''
          then (Return None (Some (errorString
                  (''API error: '' @ Code apiResp @ '' - ('' @ APIResponse.Type apiResp @ '') ''
                     @ Message apiResp))), w2)
          else if StatusCode resp \<ge> 400
          then (Return None (Some (errorString
                  (''HTTP error: '' @ Itoa (StatusCode resp) @ '' (Raw Response: ''
                     @ fmt_v_APIResponse apiResp @ '')''))), w2)
          else (Return (Some apiResp) None, w2)))))))))"

definition makeRequest ::
  "env \<Rightarrow> donatelyClient \<Rightarrow> string \<Rightarrow> string \<Rightarrow> body \<Rightarrow> world
     \<Rightarrow> APIResponse option returned \<times> world" where
  "makeRequest env c method endpoint body w =
     makeRequestWithContentType env c method endpoint body ''application/json'' w"

subsection \<open>Construction\<close>

text \<open>A \<^verbatim>\<open>ClientOption\<close> is a function that updates the options in place.\<close>

type_synonym ClientOption = "clientOption \<Rightarrow> clientOption"

definition WithAPIKey :: "string \<Rightarrow> ClientOption" where
  "WithAPIKey key = (\<lambda>opt. opt\<lparr>apiKey := key\<rparr>)"

definition WithBaseURL :: "string \<Rightarrow> ClientOption" where
  "WithBaseURL url = (\<lambda>opt. opt\<lparr>baseURL := url\<rparr>)"

definition WithRetry :: ClientOption where
  "WithRetry = (\<lambda>opt. opt\<lparr>doRetry := True\<rparr>)"

definition NewDonatelyClient :: "ClientOption list \<Rightarrow> donatelyClient \<times> go_error option" where
  "NewDonatelyClient options =
     (let clientOptions =
            foldl (\<lambda>acc option. option acc)
              \<lparr>apiKey = '''', baseURL = ''https://api.donately.com/v2'',
               donatelyAPIVersion = ''2018-04-01'', doRetry = False, debug = False\<rparr>
              options
      in if apiKey clientOptions = '''' then
           (zero_donatelyClient, Some (errors_New ''missing API key!''))
         else if baseURL clientOptions = '''' then
           (zero_donatelyClient, Some (errors_New ''missing base URL!''))
         else (\<lparr>opts = clientOptions, client = Some http_Client\<rparr>, None))"

subsection \<open>The retry loop\<close>

text \<open>
  Modelled from the spec: \<^verbatim>\<open>backoff.Retry\<close> belongs to the module
  \<^verbatim>\<open>github.com/cenkalti/backoff/v5\<close>, which is not among the sources. Section 4.4: the same
  invocation is repeated under a bounded schedule until a call succeeds or the policy
  gives up. The operation is called at once; a nil error ends the loop with that result.
  After a failed call number \<open>numTries\<close> the policy either gives up with an error
  (\<open>backoff_stop\<close>: the operation's error, or the context's) or waits and calls again; the
  schedule grants \<open>backoff_tries\<close> further calls before its elapsed-time limit, after which
  the last result is returned as it is.
\<close>

fun backoff_Retry ::
  "env \<Rightarrow> (world \<Rightarrow> APIResponse option returned \<times> world) \<Rightarrow> nat \<Rightarrow> nat \<Rightarrow> world
     \<Rightarrow> APIResponse option returned \<times> world" where
  "backoff_Retry env operation 0 numTries w = operation w"
| "backoff_Retry env operation (Suc k) numTries w =
     (case operation w of
        (Panic p, w') \<Rightarrow> (Panic p, w')
      | (Return res None, w') \<Rightarrow> (Return res None, w')
      | (Return res (Some err), w') \<Rightarrow>
          (case backoff_stop env numTries err of
             Some e \<Rightarrow> (Return res (Some e), w')
           | None \<Rightarrow> backoff_Retry env operation k (Suc numTries) w'))"

subsection \<open>Resource operations\<close>

definition ListPeople ::
  "env \<Rightarrow> donatelyClient \<Rightarrow> Account \<Rightarrow> int \<Rightarrow> int \<Rightarrow> world \<Rightarrow> Person list returned \<times> world" where
  "ListPeople env c account offset limit w =
     (let params = Values_Set ''account_id'' (Account.ID account) [];
          params = (if offset > 0 then Values_Set ''offset'' (Itoa offset) params else params);
          params = (if limit > 0 then Values_Set ''limit'' (Itoa limit) params else params)
      in case makeRequest env c ''GET'' (''/people?'' @ Values_Encode params) NoBody w of
           (Panic p, w') \<Rightarrow> (Panic p, w')
         | (Return resp (Some err), w') \<Rightarrow> (Return [] (Some err), w')
         | (Return None None, w') \<Rightarrow> (Panic nil_dereference, w')
         | (Return (Some r) None, w') \<Rightarrow>
             (case json_Unmarshal_People env (Data r) of
                Inl err \<Rightarrow> (Return [] (Some (fmt_Errorf_w ''failed to unmarshal people: '' err)), w')
              | Inr people \<Rightarrow> (Return people None, w')))"

text \<open>
  Lines 342-377 of \<^verbatim>\<open>SavePerson\<close>: the form fields, each field sent only when set. The
  code reaches \<^verbatim>\<open>person.Accounts[0]\<close> only after the check that the slice is not empty
  (in the check itself \<^verbatim>\<open>||\<close> short-circuits), so the index is in range wherever its
  value matters.
\<close>

definition SavePerson_formData :: "Person \<Rightarrow> Values" where
  "SavePerson_formData person =
     (let accountId = Account.ID (Accounts person ! 0);
          formData = Values_Set ''account_id'' accountId [];
          formData = (if FirstName person \<noteq> ''''
                      then Values_Set ''first_name'' (FirstName person) formData else formData);
          formData = (if LastName person \<noteq> ''''
                      then Values_Set ''last_name'' (LastName person) formData else formData);
          formData = (if Email person \<noteq> ''''
                      then Values_Set ''email'' (Email person) formData else formData);
          formData = (if PhoneNumber person \<noteq> ''''
                      then Values_Set ''phone_number'' (PhoneNumber person) formData else formData);
          formData = (if StreetAddress person \<noteq> ''''
                      then Values_Set ''street_address'' (StreetAddress person) formData
                      else formData);
          formData = (if StreetAddress2 person \<noteq> ''''
                      then Values_Set ''street_address_2'' (StreetAddress2 person) formData
                      else formData);
          formData = (if City person \<noteq> ''''
                      then Values_Set ''city'' (City person) formData else formData);
          formData = (if State person \<noteq> ''''
                      then Values_Set ''state'' (State person) formData else formData);
          formData = (if ZipCode person \<noteq> ''''
                      then Values_Set ''zip_code'' (ZipCode person) formData else formData);
          formData = (if Country person \<noteq> ''''
                      then Values_Set ''country'' (Country person) formData else formData)
      in formData)"

definition SavePerson ::
  "env \<Rightarrow> donatelyClient \<Rightarrow> Person \<Rightarrow> world \<Rightarrow> Person returned \<times> world" where
  "SavePerson env c person w =
     (let endpoint = (if Person.ID person = '''' then ''/people''
                      else ''/people/'' @ PathEscape (Person.ID person))
      in if length (Accounts person) = 0 \<or> Account.ID (Accounts person ! 0) = '''' then
           (Return zero_Person (Some (errors_New ''missing account information'')), w)
         else
     (let formData = SavePerson_formData person
      in case makeRequestWithContentType env c ''POST'' endpoint (ValuesBody formData)
                ''application/x-www-form-urlencoded'' w of
           (Panic p, w') \<Rightarrow> (Panic p, w')
         | (Return resp (Some err), w') \<Rightarrow> (Return zero_Person (Some err), w')
         | (Return None None, w') \<Rightarrow> (Panic nil_dereference, w')
         | (Return (Some r) None, w') \<Rightarrow>
             (case json_Unmarshal_Person env (Data r) of
                Inl err \<Rightarrow>
                  (Return zero_Person
                     (Some (fmt_Errorf_w ''failed to unmarshal saved person: '' err)), w')
              | Inr savedPerson \<Rightarrow> (Return savedPerson None, w'))))"

definition ListDonations ::
  "env \<Rightarrow> donatelyClient \<Rightarrow> Account \<Rightarrow> int \<Rightarrow> int \<Rightarrow> world
     \<Rightarrow> Donation list returned \<times> world" where
  "ListDonations env c account offset limit w =
     (let params = Values_Set ''account_id'' (Account.ID account) [];
          params = (if offset > 0 then Values_Set ''offset'' (Itoa offset) params else params);
          params = (if limit > 0 then Values_Set ''limit'' (Itoa limit) params else params)
      in case makeRequest env c ''GET'' (''/donations?'' @ Values_Encode params) NoBody w of
           (Panic p, w') \<Rightarrow> (Panic p, w')
         | (Return resp (Some err), w') \<Rightarrow> (Return [] (Some err), w')
         | (Return None None, w') \<Rightarrow> (Panic nil_dereference, w')
         | (Return (Some r) None, w') \<Rightarrow>
             (case json_Unmarshal_Donations env (Data r) of
                Inl err \<Rightarrow>
                  (Return [] (Some (fmt_Errorf_w ''failed to unmarshal donations: '' err)), w')
              | Inr donations \<Rightarrow> (Return donations None, w')))"

text \<open>Lines 462-488 of \<^verbatim>\<open>SaveDonation\<close>: the query parameters, each field sent only when set.\<close>

definition SaveDonation_params :: "Donation \<Rightarrow> Values" where
  "SaveDonation_params donation =
     (let params = Values_Set ''account_id'' (Account.ID (Donation.Account donation)) [];
          params = (if AmountInCents donation > 0
                    then Values_Set ''amount_in_cents'' (Itoa (AmountInCents donation)) params
                    else params);
          params = (if DonationType donation \<noteq> ''''
                    then Values_Set ''donation_type'' (DonationType donation) params else params);
          params = (if Campaign.ID (Campaign donation) \<noteq> ''''
                    then Values_Set ''campaign_id'' (Campaign.ID (Campaign donation)) params
                    else params);
          params = (if Email (Person donation) \<noteq> ''''
                    then Values_Set ''email'' (Email (Person donation)) params else params);
          params = (if Comment donation \<noteq> ''''
                    then Values_Set ''comment'' (Comment donation) params else params);
          params = (if Anonymous donation
                    then Values_Set ''anonymous'' ''true'' params else params);
          params = (if OnBehalfOf donation \<noteq> ''''
                    then Values_Set ''on_behalf_of'' (OnBehalfOf donation) params else params);
          params = (if Donation.Status donation \<noteq> ''''
                    then Values_Set ''status'' (Donation.Status donation) params else params)
      in params)"

text \<open>
  \<^verbatim>\<open>SaveDonation\<close>. The block guarded by \<^verbatim>\<open>c.opts.doRetry\<close> either returns (\<open>Inl\<close>) or falls
  through with the response to decode (\<open>Inr\<close>); without the flag the error of the first call
  is not looked at, and \<^verbatim>\<open>resp.Data\<close> dereferences whatever pointer the call returned.
\<close>

definition SaveDonation ::
  "env \<Rightarrow> donatelyClient \<Rightarrow> Donation \<Rightarrow> world \<Rightarrow> Donation returned \<times> world" where
  "SaveDonation env c donation w =
     (let endpoint = (if Donation.ID donation = '''' then ''/donations''
                      else ''/donations/'' @ PathEscape (Donation.ID donation))
      in if Account.ID (Donation.Account donation) = '''' then
           (Return zero_Donation (Some (errors_New ''missing account information'')), w)
         else
     (let params = SaveDonation_params donation;
          endpoint = (if length params > 0 then endpoint @ ''?'' @ Values_Encode params
                      else endpoint)
      in case makeRequest env c ''POST'' endpoint NoBody w of
           (Panic p, w1) \<Rightarrow> (Panic p, w1)
         | (Return resp err, w1) \<Rightarrow>
     (case (if doRetry (opts c) then
              (if retry_gate err then
                 (let operation = makeRequest env c ''POST'' endpoint NoBody
                  in case backoff_Retry env operation (backoff_tries env) 1 w1 of
                       (Panic p, w2) \<Rightarrow> Inl (Panic p, w2)
                     | (Return resp' err', w2) \<Rightarrow>
                         if err' \<noteq> None then Inl (Return zero_Donation err', w2)
                         else Inr (resp', w2))
               else Inl (Return zero_Donation err, w1))
            else Inr (resp, w1)) of
        Inl returned \<Rightarrow> returned
      | Inr (None, w3) \<Rightarrow> (Panic nil_dereference, w3)
      | Inr (Some r, w3) \<Rightarrow>
          (case json_Unmarshal_Donation env (Data r) of
             Inl err \<Rightarrow>
               (Return zero_Donation
                  (Some (fmt_Errorf_w ''failed to unmarshal saved donation: '' err)), w3)
           | Inr savedDonation \<Rightarrow> (Return savedDonation None, w3)))))"

definition RefundDonation ::
  "env \<Rightarrow> donatelyClient \<Rightarrow> Donation \<Rightarrow> string \<Rightarrow> world \<Rightarrow> unit returned \<times> world" where
  "RefundDonation env c donation reason w =
     (let endpoint = ''/donations/'' @ PathEscape (Donation.ID donation) @ ''/refund''
      in if Account.ID (Donation.Account donation) = '''' then
           (Return () (Some (errors_New ''missing account information'')), w)
         else
     (let formData = Values_Set ''account_id'' (Account.ID (Donation.Account donation)) [];
          formData = Values_Set ''refund_reason'' reason formData
      in case makeRequest env c ''POST'' endpoint (ValuesBody formData) w of
           (Panic p, w') \<Rightarrow> (Panic p, w')
         | (Return resp err, w') \<Rightarrow> (Return () err, w')))"

definition SaveSubscription ::
  "env \<Rightarrow> donatelyClient \<Rightarrow> Subscription \<Rightarrow> world \<Rightarrow> Subscription returned \<times> world" where
  "SaveSubscription env c subscription w =
     (let endpoint = (if Subscription.ID subscription = '''' then ''/subscriptions''
                      else ''/subscriptions/'' @ PathEscape (Subscription.ID subscription))
      in case makeRequest env c ''POST'' endpoint (SubscriptionBody subscription) w of
           (Panic p, w') \<Rightarrow> (Panic p, w')
         | (Return resp (Some err), w') \<Rightarrow> (Return zero_Subscription (Some err), w')
         | (Return None None, w') \<Rightarrow> (Panic nil_dereference, w')
         | (Return (Some r) None, w') \<Rightarrow>
             (case json_Unmarshal_Subscription env (Data r) of
                Inl err \<Rightarrow>
                  (Return zero_Subscription
                     (Some (fmt_Errorf_w ''failed to unmarshal saved subscription: '' err)), w')
              | Inr savedSubscription \<Rightarrow> (Return savedSubscription None, w')))"

definition SaveCampaign ::
  "env \<Rightarrow> donatelyClient \<Rightarrow> Campaign \<Rightarrow> world \<Rightarrow> Campaign returned \<times> world" where
  "SaveCampaign env c campaign w =
     (let endpoint = (if Campaign.ID campaign = '''' then ''/campaigns''
                      else ''/campaigns/'' @ PathEscape (Campaign.ID campaign))
      in case makeRequest env c ''POST'' endpoint (CampaignBody campaign) w of
           (Panic p, w') \<Rightarrow> (Panic p, w')
         | (Return resp (Some err), w') \<Rightarrow> (Return zero_Campaign (Some err), w')
         | (Return None None, w') \<Rightarrow> (Panic nil_dereference, w')
         | (Return (Some r) None, w') \<Rightarrow>
             (case json_Unmarshal_Campaign env (Data r) of
                Inl err \<Rightarrow>
                  (Return zero_Campaign
                     (Some (fmt_Errorf_w ''failed to unmarshal saved campaign: '' err)), w')
              | Inr savedCampaign \<Rightarrow> (Return savedCampaign None, w')))"

subsection \<open>Notions used to state the properties\<close>

text \<open>The requests an operation has issued between two worlds.\<close>

definition issued :: "world \<Rightarrow> world \<Rightarrow> request list" where
  "issued w w' = drop (length (sent w)) (sent w')"

text \<open>
  A request that completes: the body encodes, the URL is accepted, the client has a
  transport, and the transport delivers a response with the given status whose body reads
  as \<open>raw\<close>.
\<close>

definition completes ::
  "env \<Rightarrow> donatelyClient \<Rightarrow> string \<Rightarrow> string \<Rightarrow> body \<Rightarrow> string \<Rightarrow> world \<Rightarrow> int \<Rightarrow> string
     \<Rightarrow> bool" where
  "completes env c method endpoint body contentType w status raw =
     (case reqBody env body contentType of
        Inl err \<Rightarrow> False
      | Inr rb \<Rightarrow>
          http_NewRequest env method (baseURL (opts c) @ endpoint) = None
          \<and> client c = Some http_Client
          \<and> client_Do env (sent w) (build_request c method endpoint contentType rb)
              = Inr \<lparr>StatusCode = status, response.Body = Inr raw\<rparr>)"

text \<open>The endpoint and the request that \<^verbatim>\<open>SaveDonation\<close> hands to the executor (lines 452-494).\<close>

definition SaveDonation_endpoint :: "Donation \<Rightarrow> string" where
  "SaveDonation_endpoint donation =
     (if Donation.ID donation = '''' then ''/donations''
      else ''/donations/'' @ PathEscape (Donation.ID donation))
     @ ''?'' @ Values_Encode (SaveDonation_params donation)"

definition SaveDonation_request :: "donatelyClient \<Rightarrow> Donation \<Rightarrow> request" where
  "SaveDonation_request c donation =
     build_request c ''POST'' (SaveDonation_endpoint donation) ''application/json'' None"

text \<open>
  The query parameters of the paginated list calls (lines 272-281 and 393-402, the same
  statements in \<^verbatim>\<open>ListPeople\<close> and \<^verbatim>\<open>ListDonations\<close>).
\<close>

definition list_params :: "Account \<Rightarrow> int \<Rightarrow> int \<Rightarrow> Values" where
  "list_params account offset limit =
     (let params = Values_Set ''account_id'' (Account.ID account) [];
          params = (if offset > 0 then Values_Set ''offset'' (Itoa offset) params else params);
          params = (if limit > 0 then Values_Set ''limit'' (Itoa limit) params else params)
      in params)"

text \<open>
  The query string the paginated list calls are to send: the account, then limit and
  offset only when positive, in decimal.
\<close>

definition list_query :: "Account \<Rightarrow> int \<Rightarrow> int \<Rightarrow> string" where
  "list_query account offset limit =
     ''account_id='' @ QueryEscape (Account.ID account)
     @ (if limit > 0 then ''&limit='' @ Itoa limit else '''')
     @ (if offset > 0 then ''&offset='' @ Itoa offset else '''')"

text \<open>
  Reading a query string back: the \<^verbatim>\<open>key=value\<close> pairs between \<^verbatim>\<open>&\<close>, as the server's
  \<^verbatim>\<open>ParseQuery\<close> splits them (values left escaped).
\<close>

fun split_at :: "char \<Rightarrow> string \<Rightarrow> string list" where
  "split_at sep [] = [[]]"
| "split_at sep (x # xs) =
     (if x = sep then [] # split_at sep xs
      else (case split_at sep xs of [] \<Rightarrow> [[x]] | p # ps \<Rightarrow> (x # p) # ps))"

definition pair_of :: "string \<Rightarrow> string \<times> string" where
  "pair_of s = (takeWhile (\<lambda>ch. ch \<noteq> CHR ''='') s, drop 1 (dropWhile (\<lambda>ch. ch \<noteq> CHR ''='') s))"

definition query_pairs :: "string \<Rightarrow> (string \<times> string) list" where
  "query_pairs q = map pair_of (split_at CHR ''&'' q)"

text \<open>"At least one associated account with a non-empty ID", in the words of the specification.\<close>

definition has_account :: "Person \<Rightarrow> bool" where
  "has_account person = list_ex (\<lambda>a. Account.ID a \<noteq> '''') (Accounts person)"

subsection \<open>A scripted environment\<close>

text \<open>
  The servers of \<^verbatim>\<open>client_test.go\<close>: the transport answers the n-th request with the n-th
  response of a script and refuses the connection after that. The codec stands in for
  \<^verbatim>\<open>encoding/json\<close> on the few documents the examples exchange and rejects every other text;
  trimming and lower-casing are those of \<^verbatim>\<open>strings\<close> on ASCII text.
\<close>

definition ascii_space :: "char \<Rightarrow> bool" where
  "ascii_space ch = (ch \<in> set [CHR 0x09, CHR 0x0A, CHR 0x0B, CHR 0x0C, CHR 0x0D, CHR '' ''])"

definition ascii_TrimSpace :: "string \<Rightarrow> string" where
  "ascii_TrimSpace s = rev (dropWhile ascii_space (rev (dropWhile ascii_space s)))"

definition ascii_ToLower :: "string \<Rightarrow> string" where
  "ascii_ToLower s =
     map (\<lambda>ch. if CHR ''A'' \<le> ch \<and> ch \<le> CHR ''Z'' then char_of (of_char ch + (32::nat)) else ch) s"

definition envelope :: "string \<Rightarrow> APIResponse" where
  "envelope d = \<lparr>Data = d, Type = '''', Message = '''', Code = '''', RequestID = ''''\<rparr>"

definition body_donation :: string where
  \<open>body_donation = ''{"data":{"id":"don_123"}}''\<close>

definition body_empty :: string where
  \<open>body_empty = ''{"data":{}}''\<close>

definition body_api_error :: string where
  \<open>body_api_error = ''{"type":"error","message":"Invalid API key","code":"invalid_api_key"}''\<close>

definition body_gateway :: string where
  \<open>body_gateway = ''<html>502 Bad Gateway</html>''\<close>

definition script_Unmarshal_APIResponse :: "string \<Rightarrow> go_error + APIResponse" where
  \<open>script_Unmarshal_APIResponse b =
     (if b = body_donation then Inr (envelope ''{"id":"don_123"}'')
      else if b = body_empty then Inr (envelope ''{}'')
      else if b = body_api_error then
        Inr \<lparr>Data = '''', Type = ''error'', Message = ''Invalid API key'',
             Code = ''invalid_api_key'', RequestID = ''''\<rparr>
      else Inl (errorString ''invalid character looking for beginning of value''))\<close>

definition script_Unmarshal :: "'a \<Rightarrow> (string \<Rightarrow> 'a) \<Rightarrow> string \<Rightarrow> go_error + 'a" where
  \<open>script_Unmarshal zero with_id d =
     (if d = ''{"id":"don_123"}'' then Inr (with_id ''don_123'')
      else if d = ''{}'' then Inr zero
      else Inl (errorString ''unexpected end of JSON input''))\<close>

definition script_Unmarshal_list :: "string \<Rightarrow> go_error + 'a list" where
  \<open>script_Unmarshal_list d =
     (if d = ''[]'' then Inr [] else Inl (errorString ''unexpected end of JSON input''))\<close>

definition quoted :: "string \<Rightarrow> string" where
  \<open>quoted s = ''"'' @ s @ ''"''\<close>

fun join_comma :: "string list \<Rightarrow> string" where
  "join_comma [] = []"
| "join_comma [p] = p"
| "join_comma (p # ps) = p @ '','' @ join_comma ps"

definition script_Marshal :: "body \<Rightarrow> go_error + string" where
  \<open>script_Marshal b =
     (case b of
        NoBody \<Rightarrow> Inr ''null''
      | ValuesBody v \<Rightarrow>
          Inr (''{'' @ join_comma (map (\<lambda>(k, vs). quoted k @ '':['' @ join_comma (map quoted vs) @ '']'')
                                      (sort_key fst v)) @ ''}'')
      | SubscriptionBody s \<Rightarrow> Inr (''{"id":'' @ quoted (Subscription.ID s) @ ''}'')
      | CampaignBody cp \<Rightarrow> Inr (''{"id":'' @ quoted (Campaign.ID cp) @ ''}''))\<close>

definition scripted_env :: "response list \<Rightarrow> env" where
  "scripted_env script =
     \<lparr>json_Marshal = script_Marshal,
      json_Unmarshal_APIResponse = script_Unmarshal_APIResponse,
      json_Unmarshal_Person = script_Unmarshal zero_Person (\<lambda>i. zero_Person\<lparr>Person.ID := i\<rparr>),
      json_Unmarshal_People = script_Unmarshal_list,
      json_Unmarshal_Donation =
        script_Unmarshal zero_Donation (\<lambda>i. zero_Donation\<lparr>Donation.ID := i\<rparr>),
      json_Unmarshal_Donations = script_Unmarshal_list,
      json_Unmarshal_Subscription =
        script_Unmarshal zero_Subscription (\<lambda>i. zero_Subscription\<lparr>Subscription.ID := i\<rparr>),
      json_Unmarshal_Campaign =
        script_Unmarshal zero_Campaign (\<lambda>i. zero_Campaign\<lparr>Campaign.ID := i\<rparr>),
      strings_TrimSpace = ascii_TrimSpace,
      strings_ToLower = ascii_ToLower,
      http_NewRequest = (\<lambda>method url. None),
      url_RequestURI = (\<lambda>url. url),
      client_Do = (\<lambda>history req.
         if length history < length script then Inr (script ! length history)
         else Inl (errorString ''connection refused'')),
      backoff_stop = (\<lambda>numTries err. None),
      backoff_tries = 3\<rparr>"

definition ok :: "string \<Rightarrow> response" where
  "ok b = \<lparr>StatusCode = 200, response.Body = Inr b\<rparr>"

definition test_client :: donatelyClient where
  "test_client = fst (NewDonatelyClient [WithAPIKey ''test-api-key'', WithBaseURL ''http://127.0.0.1''])"

definition retry_client :: donatelyClient where
  "retry_client =
     fst (NewDonatelyClient [WithAPIKey ''test-api-key'', WithBaseURL ''http://127.0.0.1'', WithRetry])"

definition w0 :: world where
  "w0 = \<lparr>sent = [], stdout = []\<rparr>"

definition acc_123 :: Account where
  "acc_123 = \<lparr>Account.ID = ''acc_123'', Account.Title = ''''\<rparr>"

definition test_donation :: Donation where
  "test_donation = zero_Donation\<lparr>Donation.Account := acc_123, AmountInCents := 1000\<rparr>"

definition test_person :: Person where
  "test_person = zero_Person\<lparr>FirstName := ''John'', Accounts := [acc_123]\<rparr>"

section \<open>Properties\<close>

subsection \<open>The executor and the retry loop: which requests go out\<close>

lemma reqBody_NoBody [simp]: "reqBody env NoBody ct = Inr None"
  by (simp add: reqBody_def)

lemma reqBody_form [simp]:
  "reqBody env (ValuesBody v) ''application/x-www-form-urlencoded'' = Inr (Some (Values_Encode v))"
  by (simp add: reqBody_def)

lemma makeRequest_sent:
  "sent (snd (makeRequestWithContentType env c m ep b ct w)) = sent w
   \<or> (\<exists>rb. reqBody env b ct = Inr rb
           \<and> sent (snd (makeRequestWithContentType env c m ep b ct w))
               = sent w @ [build_request c m ep ct rb])"
  by (simp add: makeRequestWithContentType_def Let_def split: sum.splits option.splits)

lemma makeRequest_unsent:
  assumes "sent (snd (makeRequestWithContentType env c m ep b ct w)) = sent w"
  shows "(\<exists>p. fst (makeRequestWithContentType env c m ep b ct w) = Panic p)
         \<or> (\<exists>e. fst (makeRequestWithContentType env c m ep b ct w) = Return None (Some e)
                 \<and> (reqBody env b ct = Inl e
                      \<or> (\<exists>err. e = fmt_Errorf_w ''failed to create request: '' err)))"
  using assms
  by (auto simp add: makeRequestWithContentType_def Let_def split: sum.splits option.splits if_splits)

lemma update_not_Nil [simp]: "AList.update k v al \<noteq> []"
  by (cases al) auto

lemma SaveDonation_params_not_Nil [simp]: "SaveDonation_params donation \<noteq> []"
  by (simp add: SaveDonation_params_def Let_def Values_Set_def)

lemma Retry_sent:
  "\<exists>n. sent (snd (backoff_Retry env (makeRequest env c m ep NoBody) k t w))
        = sent w @ replicate n (build_request c m ep ''application/json'' None)"
proof (induction k arbitrary: t w)
  case 0
  have "sent (snd (makeRequest env c m ep NoBody w)) = sent w
        \<or> sent (snd (makeRequest env c m ep NoBody w))
            = sent w @ [build_request c m ep ''application/json'' None]"
    using makeRequest_sent [of env c m ep NoBody "''application/json''" w]
    by (simp add: makeRequest_def)
  then show ?case
  proof
    assume "sent (snd (makeRequest env c m ep NoBody w)) = sent w"
    then have "sent (snd (backoff_Retry env (makeRequest env c m ep NoBody) 0 t w))
               = sent w @ replicate 0 (build_request c m ep ''application/json'' None)"
      by simp
    then show ?thesis by blast
  next
    assume "sent (snd (makeRequest env c m ep NoBody w))
            = sent w @ [build_request c m ep ''application/json'' None]"
    then have "sent (snd (backoff_Retry env (makeRequest env c m ep NoBody) 0 t w))
               = sent w @ replicate 1 (build_request c m ep ''application/json'' None)"
      by simp
    then show ?thesis by blast
  qed
next
  case (Suc k)
  let ?req = "build_request c m ep ''application/json'' None"
  obtain r w1 where op: "makeRequest env c m ep NoBody w = (r, w1)"
    by (cases "makeRequest env c m ep NoBody w") auto
  have "sent w1 = sent w \<or> sent w1 = sent w @ [?req]"
    using makeRequest_sent [of env c m ep NoBody "''application/json''" w] op
    by (simp add: makeRequest_def)
  then obtain n0 where n0: "sent w1 = sent w @ replicate n0 ?req"
    by (metis append_Nil2 replicate_0 replicate_Suc)
  show ?case
  proof (cases r)
    case (Panic p)
    with op n0 show ?thesis by auto
  next
    case (Return res err)
    show ?thesis
    proof (cases err)
      case None
      with Return op n0 show ?thesis by auto
    next
      case (Some e)
      show ?thesis
      proof (cases "backoff_stop env t e")
        case (Some e')
        with \<open>err = Some e\<close> Return op n0 show ?thesis by auto
      next
        case None
        from Suc.IH [of "Suc t" w1] obtain n1 where
          "sent (snd (backoff_Retry env (makeRequest env c m ep NoBody) k (Suc t) w1))
             = sent w1 @ replicate n1 ?req" by blast
        with n0 have "sent (snd (backoff_Retry env (makeRequest env c m ep NoBody) k (Suc t) w1))
             = sent w @ replicate (n0 + n1) ?req"
          by (simp add: replicate_add)
        with None \<open>err = Some e\<close> Return op show ?thesis by auto
      qed
    qed
  qed
qed

subsection \<open>Construction\<close>

text \<open>
  C10. Constructing a client with a non-empty API key and the base URL option explicitly
  set to the empty string fails with the error "missing base URL!": the explicitly
  supplied empty base URL replaces the default (and any base URL set by earlier options)
  instead of falling back to it. The two options may come in either order.
\<close>

theorem NewDonatelyClient_empty_base_URL:
  assumes "key \<noteq> ''''"
  shows "NewDonatelyClient (before @ [WithAPIKey key, WithBaseURL ''''])
           = (zero_donatelyClient, Some (errors_New ''missing base URL!''))
         \<and> NewDonatelyClient (before @ [WithBaseURL '''', WithAPIKey key])
           = (zero_donatelyClient, Some (errors_New ''missing base URL!''))"
  using assms
  by (simp add: NewDonatelyClient_def WithAPIKey_def WithBaseURL_def Let_def)

theorem NewDonatelyClient_empty_base_URL_witness:
  "''test-api-key'' \<noteq> ''''
   \<and> NewDonatelyClient [WithAPIKey ''test-api-key'', WithBaseURL '''']
       = (zero_donatelyClient, Some (errors_New ''missing base URL!''))
   \<and> Error (errors_New ''missing base URL!'') = ''missing base URL!''"
  using NewDonatelyClient_empty_base_URL [of "''test-api-key''" "[]"]
  by (simp add: errors_New_def)

subsection \<open>Error classification\<close>

lemma makeRequest_parsed:
  assumes "completes env c m ep b ct w status raw"
      and "json_Unmarshal_APIResponse env raw = Inr apiResp"
  shows "fst (makeRequestWithContentType env c m ep b ct w) =
           (if APIResponse.Type apiResp \<noteq> '''' \<and> Message apiResp \<noteq> '''' \<and> Code apiResp \<noteq> ''''
            then Return None (Some (errorString
                  (''API error: '' @ Code apiResp @ '' - ('' @ APIResponse.Type apiResp @ '') ''
                     @ Message apiResp)))
            else if status \<ge> 400
            then Return None (Some (errorString
                  (''HTTP error: '' @ Itoa status @ '' (Raw Response: ''
                     @ fmt_v_APIResponse apiResp @ '')'')))
            else Return (Some apiResp) None)"
  using assms
  by (simp add: makeRequestWithContentType_def completes_def Let_def split: sum.splits option.splits)

lemma makeRequest_unparsed:
  assumes "completes env c m ep b ct w status raw"
      and "json_Unmarshal_APIResponse env raw = Inl perr"
  shows "fst (makeRequestWithContentType env c m ep b ct w) =
           (if ''retry later'' = strings_ToLower env (strings_TrimSpace env raw)
            then Return None (Some (retryableError
                   (fmt_Errorf_w ''failed to unmarshal response: '' perr) True))
            else Return None (Some (fmt_Errorf_w ''failed to unmarshal response: '' perr)))"
  using assms
  by (simp add: makeRequestWithContentType_def completes_def Let_def split: sum.splits option.splits)

lemma makeRequest_completes_sent:
  assumes "completes env c m ep b ct w status raw"
  shows "\<exists>rb. reqBody env b ct = Inr rb
           \<and> sent (snd (makeRequestWithContentType env c m ep b ct w))
               = sent w @ [build_request c m ep ct rb]"
  using assms
  by (simp add: makeRequestWithContentType_def completes_def Let_def split: sum.splits option.splits)

text \<open>
  C4. For every completed HTTP response whose body parses as the envelope: when type,
  message and code are all non-empty the request fails with an error whose text is exactly
  "API error: {code} - ({type}) {message}" and which does not pass the retry gate, whatever
  the HTTP status; when the three are not all non-empty and the status is at least 400 the
  request fails with an HTTP error whose text holds the decimal status code; otherwise the
  envelope is returned as success.
\<close>

theorem envelope_classification:
  assumes "completes env c method endpoint body contentType w status raw"
      and "json_Unmarshal_APIResponse env raw = Inr apiResp"
  shows "(APIResponse.Type apiResp \<noteq> '''' \<and> Message apiResp \<noteq> '''' \<and> Code apiResp \<noteq> '''' \<longrightarrow>
            (\<exists>e. fst (makeRequestWithContentType env c method endpoint body contentType w)
                   = Return None (Some e)
                 \<and> Error e = ''API error: '' @ Code apiResp @ '' - ('' @ APIResponse.Type apiResp
                               @ '') '' @ Message apiResp
                 \<and> \<not> retry_gate (Some e)))
       \<and> (\<not> (APIResponse.Type apiResp \<noteq> '''' \<and> Message apiResp \<noteq> '''' \<and> Code apiResp \<noteq> '''')
            \<and> status \<ge> 400 \<longrightarrow>
            (\<exists>e. fst (makeRequestWithContentType env c method endpoint body contentType w)
                   = Return None (Some e)
                 \<and> Error e = ''HTTP error: '' @ Itoa status @ '' (Raw Response: ''
                               @ fmt_v_APIResponse apiResp @ '')''
                 \<and> \<not> retry_gate (Some e)))
       \<and> (\<not> (APIResponse.Type apiResp \<noteq> '''' \<and> Message apiResp \<noteq> '''' \<and> Code apiResp \<noteq> '''')
            \<and> status < 400 \<longrightarrow>
            fst (makeRequestWithContentType env c method endpoint body contentType w)
              = Return (Some apiResp) None)"
  using makeRequest_parsed [OF assms]
  by (auto simp add: retry_gate_def)

lemma Itoa_404: "Itoa 404 = ''404''" by code_simp

theorem envelope_classification_witness:
  "(\<exists>e. fst (makeRequestWithContentType
              (scripted_env [\<lparr>StatusCode = 401, response.Body = Inr body_api_error\<rparr>])
              test_client ''GET'' ''/accounts/acc_123'' NoBody ''application/json'' w0)
          = Return None (Some e)
        \<and> Error e = ''API error: invalid_api_key - (error) Invalid API key''
        \<and> \<not> retry_gate (Some e))
   \<and> (\<exists>e. fst (makeRequestWithContentType
              (scripted_env [\<lparr>StatusCode = 404, response.Body = Inr body_empty\<rparr>])
              test_client ''GET'' ''/accounts/acc_123'' NoBody ''application/json'' w0)
          = Return None (Some e)
        \<and> Error e = ''HTTP error: 404 (Raw Response: '' @ fmt_v_APIResponse (envelope ''{}'') @ '')''
        \<and> \<not> retry_gate (Some e))
   \<and> fst (makeRequestWithContentType (scripted_env [ok body_empty])
              test_client ''GET'' ''/accounts/acc_123'' NoBody ''application/json'' w0)
       = Return (Some (envelope ''{}'')) None"
proof -
  have c1: "completes (scripted_env [\<lparr>StatusCode = 401, response.Body = Inr body_api_error\<rparr>])
              test_client ''GET'' ''/accounts/acc_123'' NoBody ''application/json'' w0
              401 body_api_error"
    by code_simp
  have u1: "json_Unmarshal_APIResponse
              (scripted_env [\<lparr>StatusCode = 401, response.Body = Inr body_api_error\<rparr>])
              body_api_error
            = Inr \<lparr>Data = '''', Type = ''error'', Message = ''Invalid API key'',
                   Code = ''invalid_api_key'', RequestID = ''''\<rparr>"
    by code_simp
  have c2: "completes (scripted_env [\<lparr>StatusCode = 404, response.Body = Inr body_empty\<rparr>])
              test_client ''GET'' ''/accounts/acc_123'' NoBody ''application/json'' w0
              404 body_empty"
    by code_simp
  have u2: "json_Unmarshal_APIResponse
              (scripted_env [\<lparr>StatusCode = 404, response.Body = Inr body_empty\<rparr>]) body_empty
            = Inr (envelope ''{}'')"
    by code_simp
  have c3: "completes (scripted_env [ok body_empty])
              test_client ''GET'' ''/accounts/acc_123'' NoBody ''application/json'' w0
              200 body_empty"
    by code_simp
  have u3: "json_Unmarshal_APIResponse (scripted_env [ok body_empty]) body_empty
            = Inr (envelope ''{}'')"
    by code_simp
  show ?thesis
    using envelope_classification [OF c1 u1] envelope_classification [OF c2 u2]
          envelope_classification [OF c3 u3]
    by (simp add: Itoa_404 envelope_def)
qed

text \<open>
  C6. For every response body that fails to parse as the envelope: when the body, trimmed
  and lower-cased, equals exactly "retry later", the request fails with a retryable error
  whose can-retry marker is true, whatever the HTTP status; for any other unparseable body
  it fails with a decode error that wraps the parse failure and is not retryable.
\<close>

theorem unparseable_body_classification:
  assumes "completes env c method endpoint body contentType w status raw"
      and "json_Unmarshal_APIResponse env raw = Inl perr"
  shows "(strings_ToLower env (strings_TrimSpace env raw) = ''retry later'' \<longrightarrow>
            (\<exists>e. fst (makeRequestWithContentType env c method endpoint body contentType w)
                   = Return None (Some e)
                 \<and> CanRetry e = Some True \<and> retry_gate (Some e)
                 \<and> Error e = ''failed to unmarshal response: '' @ Error perr))
       \<and> (strings_ToLower env (strings_TrimSpace env raw) \<noteq> ''retry later'' \<longrightarrow>
            (\<exists>e. fst (makeRequestWithContentType env c method endpoint body contentType w)
                   = Return None (Some e)
                 \<and> Unwrap e = Some perr
                 \<and> Error e = ''failed to unmarshal response: '' @ Error perr
                 \<and> CanRetry e = None \<and> \<not> retry_gate (Some e)))"
  using makeRequest_unparsed [OF assms]
  by (auto simp add: retry_gate_def fmt_Errorf_w_def)

theorem unparseable_body_classification_witness:
  "(\<exists>e. fst (makeRequestWithContentType
              (scripted_env [\<lparr>StatusCode = 503, response.Body = Inr ''  Retry Later ''\<rparr>])
              test_client ''GET'' ''/me'' NoBody ''application/json'' w0)
          = Return None (Some e)
        \<and> CanRetry e = Some True \<and> retry_gate (Some e)
        \<and> Error e = ''failed to unmarshal response: invalid character looking for beginning of value'')
   \<and> (\<exists>e. fst (makeRequestWithContentType
              (scripted_env [\<lparr>StatusCode = 502, response.Body = Inr body_gateway\<rparr>])
              test_client ''GET'' ''/me'' NoBody ''application/json'' w0)
          = Return None (Some e)
        \<and> Unwrap e = Some (errorString ''invalid character looking for beginning of value'')
        \<and> Error e = ''failed to unmarshal response: invalid character looking for beginning of value''
        \<and> CanRetry e = None \<and> \<not> retry_gate (Some e))"
proof -
  let ?perr = "errorString ''invalid character looking for beginning of value''"
  have c1: "completes (scripted_env [\<lparr>StatusCode = 503, response.Body = Inr ''  Retry Later ''\<rparr>])
              test_client ''GET'' ''/me'' NoBody ''application/json'' w0 503 ''  Retry Later ''"
    by code_simp
  have u1: "json_Unmarshal_APIResponse
              (scripted_env [\<lparr>StatusCode = 503, response.Body = Inr ''  Retry Later ''\<rparr>])
              ''  Retry Later '' = Inl ?perr"
    by code_simp
  have s1: "strings_ToLower
              (scripted_env [\<lparr>StatusCode = 503, response.Body = Inr ''  Retry Later ''\<rparr>])
              (strings_TrimSpace
                 (scripted_env [\<lparr>StatusCode = 503, response.Body = Inr ''  Retry Later ''\<rparr>])
                 ''  Retry Later '') = ''retry later''"
    by code_simp
  have c2: "completes (scripted_env [\<lparr>StatusCode = 502, response.Body = Inr body_gateway\<rparr>])
              test_client ''GET'' ''/me'' NoBody ''application/json'' w0 502 body_gateway"
    by code_simp
  have u2: "json_Unmarshal_APIResponse
              (scripted_env [\<lparr>StatusCode = 502, response.Body = Inr body_gateway\<rparr>])
              body_gateway = Inl ?perr"
    by code_simp
  have s2: "strings_ToLower
              (scripted_env [\<lparr>StatusCode = 502, response.Body = Inr body_gateway\<rparr>])
              (strings_TrimSpace
                 (scripted_env [\<lparr>StatusCode = 502, response.Body = Inr body_gateway\<rparr>])
                 body_gateway) \<noteq> ''retry later''"
    by code_simp
  show ?thesis
    using unparseable_body_classification [OF c1 u1] unparseable_body_classification [OF c2 u2]
          s1 s2
    by simp
qed

subsection \<open>Saving a donation: the retry policy\<close>

lemma SaveDonation_valid:
  assumes "Account.ID (Donation.Account donation) \<noteq> ''''"
  shows "SaveDonation env c donation w =
     (case makeRequest env c ''POST'' (SaveDonation_endpoint donation) NoBody w of
           (Panic p, w1) \<Rightarrow> (Panic p, w1)
         | (Return resp err, w1) \<Rightarrow>
     (case (if doRetry (opts c) then
              (if retry_gate err then
                 (case backoff_Retry env
                         (makeRequest env c ''POST'' (SaveDonation_endpoint donation) NoBody)
                         (backoff_tries env) 1 w1 of
                       (Panic p, w2) \<Rightarrow> Inl (Panic p, w2)
                     | (Return resp' err', w2) \<Rightarrow>
                         if err' \<noteq> None then Inl (Return zero_Donation err', w2)
                         else Inr (resp', w2))
               else Inl (Return zero_Donation err, w1))
            else Inr (resp, w1)) of
        Inl returned \<Rightarrow> returned
      | Inr (None, w3) \<Rightarrow> (Panic nil_dereference, w3)
      | Inr (Some r, w3) \<Rightarrow>
          (case json_Unmarshal_Donation env (Data r) of
             Inl err \<Rightarrow>
               (Return zero_Donation
                  (Some (fmt_Errorf_w ''failed to unmarshal saved donation: '' err)), w3)
           | Inr savedDonation \<Rightarrow> (Return savedDonation None, w3))))"
proof -
  from assms have a: "(Account.ID (Donation.Account donation) = '''') = False" by simp
  have pos: "(0 < length (SaveDonation_params donation)) = True" by simp
  show ?thesis
    unfolding SaveDonation_def SaveDonation_endpoint_def Let_def a pos if_True if_False
    by (rule refl)
qed

lemma build_request_simps [simp]:
  "request.URL (build_request c m ep ct rb) = baseURL (opts c) @ ep"
  "Method (build_request c m ep ct rb) = m"
  "request.Body (build_request c m ep ct rb) = rb"
  by (simp_all add: build_request_def)

lemma SaveDonation_request_URL [simp]:
  "request.URL (SaveDonation_request c donation) = baseURL (opts c) @ SaveDonation_endpoint donation"
  by (simp add: SaveDonation_request_def build_request_def)

lemma Retry_first_success:
  assumes "operation w = (Return res None, w')"
  shows "backoff_Retry env operation k t w = (Return res None, w')"
  using assms by (cases k) simp_all

text \<open>
  C7. On a client with the retry flag on, when the first response body is the literal text
  "retry later" and the next attempt's response is a well-formed success envelope,
  \<^verbatim>\<open>SaveDonation\<close> returns the donation decoded from the second response, with no error,
  after exactly two attempts (the same request twice).
\<close>

theorem SaveDonation_retry_then_success:
  assumes retry: "doRetry (opts c)"
      and transport: "client c = Some http_Client"
      and account: "Account.ID (Donation.Account donation) \<noteq> ''''"
      and url: "http_NewRequest env ''POST'' (request.URL (SaveDonation_request c donation)) = None"
      and first: "client_Do env (sent w) (SaveDonation_request c donation)
                    = Inr \<lparr>StatusCode = status1, response.Body = Inr ''retry later''\<rparr>"
      and no_json: "json_Unmarshal_APIResponse env ''retry later'' = Inl perr"
      and sentinel: "strings_ToLower env (strings_TrimSpace env ''retry later'') = ''retry later''"
      and second: "client_Do env (sent w @ [SaveDonation_request c donation])
                     (SaveDonation_request c donation)
                    = Inr \<lparr>StatusCode = status2, response.Body = Inr raw\<rparr>"
      and json: "json_Unmarshal_APIResponse env raw = Inr apiResp"
      and success: "\<not> (APIResponse.Type apiResp \<noteq> '''' \<and> Message apiResp \<noteq> ''''
                        \<and> Code apiResp \<noteq> '''')" "status2 < 400"
      and payload: "json_Unmarshal_Donation env (Data apiResp) = Inr saved"
  shows "fst (SaveDonation env c donation w) = Return saved None
         \<and> issued w (snd (SaveDonation env c donation w))
             = [SaveDonation_request c donation, SaveDonation_request c donation]"
proof -
  let ?ep = "SaveDonation_endpoint donation"
  let ?req = "SaveDonation_request c donation"
  let ?op = "makeRequest env c ''POST'' ?ep NoBody"
  have c1: "completes env c ''POST'' ?ep NoBody ''application/json'' w status1 ''retry later''"
    using url first transport by (simp add: completes_def SaveDonation_request_def)
  obtain r1 w1 where op1: "?op w = (r1, w1)"
    by (cases "?op w") auto
  have r1: "r1 = Return None (Some (retryableError
                   (fmt_Errorf_w ''failed to unmarshal response: '' perr) True))"
    using makeRequest_unparsed [OF c1 no_json] sentinel op1 by (simp add: makeRequest_def)
  have s1: "sent w1 = sent w @ [?req]"
    using makeRequest_completes_sent [OF c1] op1
    by (simp add: makeRequest_def SaveDonation_request_def)
  have c2: "completes env c ''POST'' ?ep NoBody ''application/json'' w1 status2 raw"
    using url second transport s1 by (simp add: completes_def SaveDonation_request_def)
  obtain r2 w2 where op2: "?op w1 = (r2, w2)"
    by (cases "?op w1") auto
  have r2: "r2 = Return (Some apiResp) None"
    using makeRequest_parsed [OF c2 json] success op2 by (simp add: makeRequest_def)
  have s2: "sent w2 = sent w @ [?req, ?req]"
    using makeRequest_completes_sent [OF c2] op2 s1
    by (simp add: makeRequest_def SaveDonation_request_def)
  have again: "backoff_Retry env ?op k t w1 = (Return (Some apiResp) None, w2)" for k t
    using op2 r2 by (simp add: Retry_first_success)
  have "SaveDonation env c donation w = (Return saved None, w2)"
    by (simp add: SaveDonation_valid [OF account] op1 r1 retry retry_gate_def again payload)
  with s2 show ?thesis by (simp add: issued_def)
qed

theorem SaveDonation_retry_then_success_witness:
  "fst (SaveDonation (scripted_env [ok ''retry later'', ok body_donation]) retry_client
          test_donation w0) = Return (zero_Donation\<lparr>Donation.ID := ''don_123''\<rparr>) None
   \<and> issued w0 (snd (SaveDonation (scripted_env [ok ''retry later'', ok body_donation])
                       retry_client test_donation w0))
       = [SaveDonation_request retry_client test_donation,
          SaveDonation_request retry_client test_donation]"
proof -
  let ?env = "scripted_env [ok ''retry later'', ok body_donation]"
  have h1: "doRetry (opts retry_client)" by code_simp
  have h2: "client retry_client = Some http_Client" by code_simp
  have h3: "Account.ID (Donation.Account test_donation) \<noteq> ''''" by code_simp
  have h4: "http_NewRequest ?env ''POST''
              (request.URL (SaveDonation_request retry_client test_donation)) = None"
    by (simp add: scripted_env_def)
  have h5: "client_Do ?env (sent w0) (SaveDonation_request retry_client test_donation)
              = Inr \<lparr>StatusCode = 200, response.Body = Inr ''retry later''\<rparr>"
    by (simp add: scripted_env_def w0_def ok_def)
  have h6: "json_Unmarshal_APIResponse ?env ''retry later''
              = Inl (errorString ''invalid character looking for beginning of value'')"
    by code_simp
  have h7: "strings_ToLower ?env (strings_TrimSpace ?env ''retry later'') = ''retry later''"
    by code_simp
  have h8: "client_Do ?env (sent w0 @ [SaveDonation_request retry_client test_donation])
              (SaveDonation_request retry_client test_donation)
              = Inr \<lparr>StatusCode = 200, response.Body = Inr body_donation\<rparr>"
    by (simp add: scripted_env_def w0_def ok_def)
  have h9: \<open>json_Unmarshal_APIResponse ?env body_donation = Inr (envelope ''{"id":"don_123"}'')\<close>
    by code_simp
  have h10: \<open>\<not> (APIResponse.Type (envelope ''{"id":"don_123"}'') \<noteq> ''''
                 \<and> Message (envelope ''{"id":"don_123"}'') \<noteq> ''''
                 \<and> Code (envelope ''{"id":"don_123"}'') \<noteq> '''')\<close>
    by (simp add: envelope_def)
  have h11: "(200::int) < 400" by simp
  have h12: \<open>json_Unmarshal_Donation ?env (Data (envelope ''{"id":"don_123"}''))
               = Inr (zero_Donation\<lparr>Donation.ID := ''don_123''\<rparr>)\<close>
    by code_simp
  show ?thesis
    by (rule SaveDonation_retry_then_success [OF h1 h2 h3 h4 h5 h6 h7 h8 h9 h10 h11 h12])
qed

lemma SaveDonation_no_retry_error:
  assumes "\<not> doRetry (opts c)"
      and "Account.ID (Donation.Account donation) \<noteq> ''''"
      and "fst (makeRequest env c ''POST'' (SaveDonation_endpoint donation) NoBody w)
             = Return None (Some err)"
  shows "SaveDonation env c donation w
           = (Panic nil_dereference,
              snd (makeRequest env c ''POST'' (SaveDonation_endpoint donation) NoBody w))"
  using assms(1,3)
  by (cases "makeRequest env c ''POST'' (SaveDonation_endpoint donation) NoBody w")
     (simp add: SaveDonation_valid [OF assms(2)])

lemma SaveDonation_retry_first_success:
  assumes "doRetry (opts c)"
      and "Account.ID (Donation.Account donation) \<noteq> ''''"
      and "fst (makeRequest env c ''POST'' (SaveDonation_endpoint donation) NoBody w)
             = Return resp None"
  shows "SaveDonation env c donation w
           = (Return zero_Donation None,
              snd (makeRequest env c ''POST'' (SaveDonation_endpoint donation) NoBody w))"
  using assms(1,3)
  by (cases "makeRequest env c ''POST'' (SaveDonation_endpoint donation) NoBody w")
     (simp add: SaveDonation_valid [OF assms(2)] retry_gate_def)

text \<open>
  C1 (the code departs from it). The claim: with the retry flag off and a first response
  body "retry later", \<^verbatim>\<open>SaveDonation\<close> returns the retryable error after exactly one
  attempt. The code makes exactly one attempt, but without the flag it never looks at the
  error: it goes on to read \<^verbatim>\<open>resp.Data\<close> through the nil response and panics.
\<close>

theorem SaveDonation_retry_disabled_retry_later:
  "doRetry (opts test_client) = False
   \<and> (\<exists>e. fst (makeRequest (scripted_env [ok ''retry later'']) test_client ''POST''
                 (SaveDonation_endpoint test_donation) NoBody w0) = Return None (Some e)
          \<and> retry_gate (Some e))
   \<and> fst (SaveDonation (scripted_env [ok ''retry later'']) test_client test_donation w0)
       = Panic nil_dereference
   \<and> issued w0 (snd (SaveDonation (scripted_env [ok ''retry later'']) test_client
                       test_donation w0))
       = [SaveDonation_request test_client test_donation]"
proof -
  let ?env = "scripted_env [ok ''retry later'']"
  have a: "doRetry (opts test_client) = False" by code_simp
  have b: "fst (makeRequest ?env test_client ''POST'' (SaveDonation_endpoint test_donation)
                  NoBody w0)
           = Return None (Some (retryableError
               (fmt_Errorf_w ''failed to unmarshal response: ''
                  (errorString ''invalid character looking for beginning of value'')) True))"
    by code_simp
  have c: "fst (SaveDonation ?env test_client test_donation w0) = Panic nil_dereference"
    by code_simp
  have d: "issued w0 (snd (SaveDonation ?env test_client test_donation w0))
           = [SaveDonation_request test_client test_donation]"
    by code_simp
  from a b c d show ?thesis by (simp add: retry_gate_def)
qed

text \<open>
  C2 (the code departs from it). The claim: with the retry flag on and a first request that
  succeeds, \<^verbatim>\<open>SaveDonation\<close> returns the donation decoded from that response. In the code
  the type assertion on the nil error fails, so the \<^verbatim>\<open>else\<close> branch returns the zero
  donation with the nil error; the response is never decoded.
\<close>

theorem SaveDonation_retry_enabled_first_success:
  \<open>doRetry (opts retry_client)
   \<and> fst (makeRequest (scripted_env [ok body_donation]) retry_client ''POST''
            (SaveDonation_endpoint test_donation) NoBody w0)
       = Return (Some (envelope ''{"id":"don_123"}'')) None
   \<and> json_Unmarshal_Donation (scripted_env [ok body_donation]) ''{"id":"don_123"}''
       = Inr (zero_Donation\<lparr>Donation.ID := ''don_123''\<rparr>)
   \<and> fst (SaveDonation (scripted_env [ok body_donation]) retry_client test_donation w0)
       = Return zero_Donation None
   \<and> zero_Donation \<noteq> zero_Donation\<lparr>Donation.ID := ''don_123''\<rparr>
   \<and> issued w0 (snd (SaveDonation (scripted_env [ok body_donation]) retry_client
                       test_donation w0))
       = [SaveDonation_request retry_client test_donation]\<close>
proof -
  let ?env = "scripted_env [ok body_donation]"
  have a: "doRetry (opts retry_client)" by code_simp
  have b: \<open>fst (makeRequest ?env retry_client ''POST'' (SaveDonation_endpoint test_donation)
                  NoBody w0)
           = Return (Some (envelope ''{"id":"don_123"}'')) None\<close>
    by code_simp
  have c: \<open>json_Unmarshal_Donation ?env ''{"id":"don_123"}''
           = Inr (zero_Donation\<lparr>Donation.ID := ''don_123''\<rparr>)\<close>
    by code_simp
  have d: "fst (SaveDonation ?env retry_client test_donation w0) = Return zero_Donation None"
    by code_simp
  have e: "zero_Donation \<noteq> zero_Donation\<lparr>Donation.ID := ''don_123''\<rparr>"
    by (simp add: zero_Donation_def)
  have f: "issued w0 (snd (SaveDonation ?env retry_client test_donation w0))
           = [SaveDonation_request retry_client test_donation]"
    by code_simp
  from a b c d e f show ?thesis by simp
qed

subsection \<open>Refunding a donation\<close>

lemma build_request_Header [simp]:
  "map_of (Header (build_request c m ep ct rb)) ''Content-Type'' = Some ct"
  by (simp add: build_request_def)

lemma RefundDonation_world:
  assumes "Account.ID (Donation.Account donation) \<noteq> ''''"
  shows "snd (RefundDonation env c donation reason w)
           = snd (makeRequestWithContentType env c ''POST''
                    (''/donations/'' @ PathEscape (Donation.ID donation) @ ''/refund'')
                    (ValuesBody (Values_Set ''refund_reason'' reason
                       (Values_Set ''account_id'' (Account.ID (Donation.Account donation)) [])))
                    ''application/json'' w)"
  using assms
  by (simp add: RefundDonation_def makeRequest_def Let_def split: prod.splits returned.splits)

lemma RefundDonation_requests:
  assumes "Account.ID (Donation.Account donation) \<noteq> ''''"
  shows "\<forall>r \<in> set (issued w (snd (RefundDonation env c donation reason w))).
           Method r = ''POST''
           \<and> request.URL r = baseURL (opts c) @ ''/donations/'' @ PathEscape (Donation.ID donation)
                               @ ''/refund''
           \<and> map_of (Header r) ''Content-Type'' = Some ''application/json''
           \<and> (\<exists>jsonBody. json_Marshal env (ValuesBody
                  (Values_Set ''refund_reason'' reason
                     (Values_Set ''account_id'' (Account.ID (Donation.Account donation)) [])))
                   = Inr jsonBody \<and> request.Body r = Some jsonBody)"
  using makeRequest_sent [of env c "''POST''"
          "''/donations/'' @ PathEscape (Donation.ID donation) @ ''/refund''"
          "ValuesBody (Values_Set ''refund_reason'' reason
             (Values_Set ''account_id'' (Account.ID (Donation.Account donation)) []))"
          "''application/json''" w]
  by (auto simp add: RefundDonation_world [OF assms] issued_def reqBody_def split: sum.splits)

text \<open>
  C3 (the code departs from it). The claim: for a donation with a non-empty ID and account
  ID, \<^verbatim>\<open>RefundDonation\<close> posts to /donations/{escaped id}/refund a form-urlencoded body
  with exactly the fields account_id and refund_reason. The method, the path and the two
  fields are as claimed, but the values go through \<^verbatim>\<open>makeRequest\<close>, whose content type
  is application/json: the body is the JSON encoding of the \<^verbatim>\<open>url.Values\<close> map, not its
  form encoding (the last conjunct shows the form encoding of the same values).
\<close>

theorem RefundDonation_sends_JSON:
  \<open>Donation.ID (test_donation\<lparr>Donation.ID := ''don_123''\<rparr>) \<noteq> ''''
   \<and> Account.ID (Donation.Account (test_donation\<lparr>Donation.ID := ''don_123''\<rparr>)) \<noteq> ''''
   \<and> issued w0 (snd (RefundDonation (scripted_env [ok body_empty]) test_client
                       (test_donation\<lparr>Donation.ID := ''don_123''\<rparr>) ''Customer request'' w0))
       = [\<lparr>Method = ''POST'', URL = ''http://127.0.0.1/donations/don_123/refund'',
           Header = [(''Donately-Version'', ''2018-04-01''),
                     (''Authorization'', ''Bearer test-api-key''),
                     (''Content-Type'', ''application/json''),
                     (''Accept'', ''application/json'')],
           request.Body = Some ''{"account_id":["acc_123"],"refund_reason":["Customer request"]}''\<rparr>]
   \<and> Values_Encode [(''account_id'', [''acc_123'']), (''refund_reason'', [''Customer request''])]
       = ''account_id=acc_123&refund_reason=Customer+request''\<close>
proof -
  have a: \<open>Donation.ID (test_donation\<lparr>Donation.ID := ''don_123''\<rparr>) \<noteq> ''''\<close> by simp
  have b: \<open>Account.ID (Donation.Account (test_donation\<lparr>Donation.ID := ''don_123''\<rparr>)) \<noteq> ''''\<close>
    by code_simp
  have c: \<open>issued w0 (snd (RefundDonation (scripted_env [ok body_empty]) test_client
                       (test_donation\<lparr>Donation.ID := ''don_123''\<rparr>) ''Customer request'' w0))
       = [\<lparr>Method = ''POST'', URL = ''http://127.0.0.1/donations/don_123/refund'',
           Header = [(''Donately-Version'', ''2018-04-01''),
                     (''Authorization'', ''Bearer test-api-key''),
                     (''Content-Type'', ''application/json''),
                     (''Accept'', ''application/json'')],
           request.Body = Some ''{"account_id":["acc_123"],"refund_reason":["Customer request"]}''\<rparr>]\<close>
    by code_simp
  have d: \<open>Values_Encode [(''account_id'', [''acc_123'']), (''refund_reason'', [''Customer request''])]
       = ''account_id=acc_123&refund_reason=Customer+request''\<close>
    by code_simp
  from a b c d show ?thesis by blast
qed

subsection \<open>Save operations: targets and validation\<close>

lemma SavePerson_invalid:
  assumes "length (Accounts person) = 0 \<or> Account.ID (Accounts person ! 0) = ''''"
  shows "SavePerson env c person w
           = (Return zero_Person (Some (errors_New ''missing account information'')), w)"
  using assms by (simp add: SavePerson_def Let_def)

lemma SavePerson_valid:
  assumes "\<not> (length (Accounts person) = 0 \<or> Account.ID (Accounts person ! 0) = '''')"
  shows "SavePerson env c person w =
     (case makeRequestWithContentType env c ''POST''
             (if Person.ID person = '''' then ''/people''
              else ''/people/'' @ PathEscape (Person.ID person))
             (ValuesBody (SavePerson_formData person)) ''application/x-www-form-urlencoded'' w of
           (Panic p, w') \<Rightarrow> (Panic p, w')
         | (Return resp (Some err), w') \<Rightarrow> (Return zero_Person (Some err), w')
         | (Return None None, w') \<Rightarrow> (Panic nil_dereference, w')
         | (Return (Some r) None, w') \<Rightarrow>
             (case json_Unmarshal_Person env (Data r) of
                Inl err \<Rightarrow>
                  (Return zero_Person
                     (Some (fmt_Errorf_w ''failed to unmarshal saved person: '' err)), w')
              | Inr savedPerson \<Rightarrow> (Return savedPerson None, w')))"
  using assms by (simp add: SavePerson_def Let_def)

lemma SavePerson_world:
  assumes "\<not> (length (Accounts person) = 0 \<or> Account.ID (Accounts person ! 0) = '''')"
  shows "snd (SavePerson env c person w) =
         snd (makeRequestWithContentType env c ''POST''
             (if Person.ID person = '''' then ''/people''
              else ''/people/'' @ PathEscape (Person.ID person))
             (ValuesBody (SavePerson_formData person)) ''application/x-www-form-urlencoded'' w)"
  unfolding SavePerson_valid [OF assms]
  by (simp split: prod.splits returned.splits option.splits sum.splits)

lemma SaveSubscription_world:
  "snd (SaveSubscription env c subscription w) =
   snd (makeRequestWithContentType env c ''POST''
          (if Subscription.ID subscription = '''' then ''/subscriptions''
           else ''/subscriptions/'' @ PathEscape (Subscription.ID subscription))
          (SubscriptionBody subscription) ''application/json'' w)"
  by (simp add: SaveSubscription_def makeRequest_def Let_def
           split: prod.splits returned.splits option.splits sum.splits)

lemma SaveCampaign_world:
  "snd (SaveCampaign env c campaign w) =
   snd (makeRequestWithContentType env c ''POST''
          (if Campaign.ID campaign = '''' then ''/campaigns''
           else ''/campaigns/'' @ PathEscape (Campaign.ID campaign))
          (CampaignBody campaign) ''application/json'' w)"
  by (simp add: SaveCampaign_def makeRequest_def Let_def
           split: prod.splits returned.splits option.splits sum.splits)

lemma issued_one_request:
  assumes "sent w' = sent w \<or> (\<exists>rb. P rb \<and> sent w' = sent w @ [build_request c m ep ct rb])"
  shows "\<forall>r \<in> set (issued w w'). Method r = m \<and> request.URL r = baseURL (opts c) @ ep"
  using assms by (auto simp add: issued_def)

lemma SaveDonation_invalid:
  assumes "Account.ID (Donation.Account donation) = ''''"
  shows "SaveDonation env c donation w
           = (Return zero_Donation (Some (errors_New ''missing account information'')), w)"
  using assms by (simp add: SaveDonation_def Let_def)

lemma SaveDonation_sent:
  "\<exists>n. sent (snd (SaveDonation env c donation w))
        = sent w @ replicate n (SaveDonation_request c donation)"
proof (cases "Account.ID (Donation.Account donation) = ''''")
  case True
  then have "sent (snd (SaveDonation env c donation w))
             = sent w @ replicate 0 (SaveDonation_request c donation)"
    by (simp add: SaveDonation_invalid)
  then show ?thesis by blast
next
  case False
  let ?req = "SaveDonation_request c donation"
  let ?op = "makeRequest env c ''POST'' (SaveDonation_endpoint donation) NoBody"
  obtain r1 w1 where op1: "?op w = (r1, w1)"
    by (cases "?op w") auto
  have "sent w1 = sent w \<or> sent w1 = sent w @ [?req]"
    using makeRequest_sent [of env c "''POST''" "SaveDonation_endpoint donation" NoBody
            "''application/json''" w] op1
    by (simp add: makeRequest_def SaveDonation_request_def)
  then obtain n0 where n0: "sent w1 = sent w @ replicate n0 ?req"
    by (metis append_Nil2 replicate_0 replicate_Suc)
  obtain r2 w2 where op2: "backoff_Retry env ?op (backoff_tries env) 1 w1 = (r2, w2)"
    by (cases "backoff_Retry env ?op (backoff_tries env) 1 w1") auto
  obtain n1 where "sent w2 = sent w1 @ replicate n1 ?req"
    using Retry_sent [of env c "''POST''" "SaveDonation_endpoint donation" "backoff_tries env" 1 w1]
          op2
    by (auto simp add: SaveDonation_request_def)
  with n0 have n1: "sent w2 = sent w @ replicate (n0 + n1) ?req"
    by (simp add: replicate_add)
  have "snd (SaveDonation env c donation w) = w1 \<or> snd (SaveDonation env c donation w) = w2"
    using op1 op2
    by (simp add: SaveDonation_valid [OF False]
             split: returned.splits option.splits sum.splits prod.splits)
  with n0 n1 show ?thesis by metis
qed

lemma makeRequest_issues:
  assumes "reqBody env b ct = Inr rb"
      and "http_NewRequest env m (baseURL (opts c) @ ep) = None"
      and "client c = Some http_Client"
  shows "issued w (snd (makeRequestWithContentType env c m ep b ct w))
           = [build_request c m ep ct rb]"
  using assms
  by (simp add: makeRequestWithContentType_def issued_def Let_def
           split: sum.splits option.splits)

lemma reqBody_json:
  assumes "b \<noteq> NoBody" and "json_Marshal env b = Inr jsonBody"
  shows "reqBody env b ''application/json'' = Inr (Some jsonBody)"
  using assms by (simp add: reqBody_def)

lemma SaveDonation_issues:
  assumes account: "Account.ID (Donation.Account donation) \<noteq> ''''"
      and url: "http_NewRequest env ''POST'' (request.URL (SaveDonation_request c donation)) = None"
      and transport: "client c = Some http_Client"
  shows "(\<exists>n. issued w (snd (SaveDonation env c donation w))
               = replicate (Suc n) (SaveDonation_request c donation))
         \<and> (\<not> doRetry (opts c) \<longrightarrow>
               issued w (snd (SaveDonation env c donation w)) = [SaveDonation_request c donation])"
proof -
  let ?req = "SaveDonation_request c donation"
  let ?op = "makeRequest env c ''POST'' (SaveDonation_endpoint donation) NoBody"
  obtain r1 w1 where op1: "?op w = (r1, w1)"
    by (cases "?op w") auto
  have "issued w w1 = [?req]"
    using makeRequest_issues [of env NoBody "''application/json''" None "''POST''" c
            "SaveDonation_endpoint donation" w] url transport op1
    by (simp add: makeRequest_def SaveDonation_request_def)
  moreover have "length (sent w) \<le> length (sent w1)"
    using makeRequest_sent [of env c "''POST''" "SaveDonation_endpoint donation" NoBody
            "''application/json''" w] op1
    by (auto simp add: makeRequest_def)
  ultimately have s1: "sent w1 = sent w @ [?req]"
    using makeRequest_sent [of env c "''POST''" "SaveDonation_endpoint donation" NoBody
            "''application/json''" w] op1
    by (auto simp add: makeRequest_def issued_def)
  obtain r2 w2 where op2: "backoff_Retry env ?op (backoff_tries env) 1 w1 = (r2, w2)"
    by (cases "backoff_Retry env ?op (backoff_tries env) 1 w1") auto
  obtain n1 where "sent w2 = sent w1 @ replicate n1 ?req"
    using Retry_sent [of env c "''POST''" "SaveDonation_endpoint donation" "backoff_tries env" 1 w1]
          op2
    by (auto simp add: SaveDonation_request_def)
  with s1 have s2: "sent w2 = sent w @ replicate (Suc n1) ?req"
    by simp
  have world: "snd (SaveDonation env c donation w) = w1
               \<or> snd (SaveDonation env c donation w) = w2"
    using op1 op2
    by (simp add: SaveDonation_valid [OF account]
             split: returned.splits option.splits sum.splits prod.splits)
  have once: "snd (SaveDonation env c donation w) = w1" if "\<not> doRetry (opts c)"
    using op1 that
    by (simp add: SaveDonation_valid [OF account]
             split: returned.splits option.splits sum.splits prod.splits)
  from s1 have i1: "issued w w1 = replicate (Suc 0) ?req"
    by (simp add: issued_def)
  from s2 have i2: "issued w w2 = replicate (Suc n1) ?req"
    by (simp add: issued_def)
  from world i1 i2 have "\<exists>n. issued w (snd (SaveDonation env c donation w))
                               = replicate (Suc n) ?req"
    by metis
  moreover have "\<not> doRetry (opts c) \<longrightarrow>
                   issued w (snd (SaveDonation env c donation w)) = [?req]"
    using once i1 by simp
  ultimately show ?thesis by blast
qed

text \<open>
  C8. For every save operation (person, donation, subscription, campaign), each request it
  issues is a POST; when the record's ID is empty the request goes to the collection path
  (/people, /donations, /subscriptions, /campaigns), otherwise to {collection}/{id} with
  the ID path-escaped (for a donation the query string follows the path). And the request
  is issued: when the record passes validation (person, donation), the body encodes
  (subscription, campaign), the URL is accepted and the client has a transport, the
  operation issues exactly that request; a donation saved with the retry flag on may
  repeat it, and issues it at least once.
\<close>

theorem save_targets:
  "(\<forall>r \<in> set (issued w (snd (SavePerson env c person w))).
       Method r = ''POST''
       \<and> request.URL r = baseURL (opts c)
           @ (if Person.ID person = '''' then ''/people''
              else ''/people/'' @ PathEscape (Person.ID person)))
   \<and> (\<not> (length (Accounts person) = 0 \<or> Account.ID (Accounts person ! 0) = '''')
        \<and> http_NewRequest env ''POST''
             (baseURL (opts c) @ (if Person.ID person = '''' then ''/people''
                                  else ''/people/'' @ PathEscape (Person.ID person))) = None
        \<and> client c = Some http_Client \<longrightarrow>
       issued w (snd (SavePerson env c person w))
         = [build_request c ''POST''
              (if Person.ID person = '''' then ''/people''
               else ''/people/'' @ PathEscape (Person.ID person))
              ''application/x-www-form-urlencoded''
              (Some (Values_Encode (SavePerson_formData person)))])
   \<and> (\<forall>r \<in> set (issued w (snd (SaveDonation env c donation w))).
       Method r = ''POST''
       \<and> request.URL r = baseURL (opts c)
           @ (if Donation.ID donation = '''' then ''/donations''
              else ''/donations/'' @ PathEscape (Donation.ID donation))
           @ ''?'' @ Values_Encode (SaveDonation_params donation))
   \<and> (Account.ID (Donation.Account donation) \<noteq> ''''
        \<and> http_NewRequest env ''POST''
             (baseURL (opts c)
              @ (if Donation.ID donation = '''' then ''/donations''
                 else ''/donations/'' @ PathEscape (Donation.ID donation))
              @ ''?'' @ Values_Encode (SaveDonation_params donation)) = None
        \<and> client c = Some http_Client \<longrightarrow>
       (\<exists>n. issued w (snd (SaveDonation env c donation w))
              = replicate (Suc n)
                  (build_request c ''POST''
                     ((if Donation.ID donation = '''' then ''/donations''
                       else ''/donations/'' @ PathEscape (Donation.ID donation))
                      @ ''?'' @ Values_Encode (SaveDonation_params donation))
                     ''application/json'' None))
       \<and> (\<not> doRetry (opts c) \<longrightarrow>
            issued w (snd (SaveDonation env c donation w))
              = [build_request c ''POST''
                   ((if Donation.ID donation = '''' then ''/donations''
                     else ''/donations/'' @ PathEscape (Donation.ID donation))
                    @ ''?'' @ Values_Encode (SaveDonation_params donation))
                   ''application/json'' None]))
   \<and> (\<forall>r \<in> set (issued w (snd (SaveSubscription env c subscription w))).
       Method r = ''POST''
       \<and> request.URL r = baseURL (opts c)
           @ (if Subscription.ID subscription = '''' then ''/subscriptions''
              else ''/subscriptions/'' @ PathEscape (Subscription.ID subscription)))
   \<and> (json_Marshal env (SubscriptionBody subscription) = Inr jsonS
        \<and> http_NewRequest env ''POST''
             (baseURL (opts c)
              @ (if Subscription.ID subscription = '''' then ''/subscriptions''
                 else ''/subscriptions/'' @ PathEscape (Subscription.ID subscription))) = None
        \<and> client c = Some http_Client \<longrightarrow>
       issued w (snd (SaveSubscription env c subscription w))
         = [build_request c ''POST''
              (if Subscription.ID subscription = '''' then ''/subscriptions''
               else ''/subscriptions/'' @ PathEscape (Subscription.ID subscription))
              ''application/json'' (Some jsonS)])
   \<and> (\<forall>r \<in> set (issued w (snd (SaveCampaign env c campaign w))).
       Method r = ''POST''
       \<and> request.URL r = baseURL (opts c)
           @ (if Campaign.ID campaign = '''' then ''/campaigns''
              else ''/campaigns/'' @ PathEscape (Campaign.ID campaign)))
   \<and> (json_Marshal env (CampaignBody campaign) = Inr jsonC
        \<and> http_NewRequest env ''POST''
             (baseURL (opts c)
              @ (if Campaign.ID campaign = '''' then ''/campaigns''
                 else ''/campaigns/'' @ PathEscape (Campaign.ID campaign))) = None
        \<and> client c = Some http_Client \<longrightarrow>
       issued w (snd (SaveCampaign env c campaign w))
         = [build_request c ''POST''
              (if Campaign.ID campaign = '''' then ''/campaigns''
               else ''/campaigns/'' @ PathEscape (Campaign.ID campaign))
              ''application/json'' (Some jsonC)])"
proof -
  let ?pep = "if Person.ID person = '''' then ''/people''
              else ''/people/'' @ PathEscape (Person.ID person)"
  let ?sep = "if Subscription.ID subscription = '''' then ''/subscriptions''
              else ''/subscriptions/'' @ PathEscape (Subscription.ID subscription)"
  let ?cep = "if Campaign.ID campaign = '''' then ''/campaigns''
              else ''/campaigns/'' @ PathEscape (Campaign.ID campaign)"
  let ?dreq = "build_request c ''POST''
                 ((if Donation.ID donation = '''' then ''/donations''
                   else ''/donations/'' @ PathEscape (Donation.ID donation))
                  @ ''?'' @ Values_Encode (SaveDonation_params donation))
                 ''application/json'' None"
  have dreq: "SaveDonation_request c donation = ?dreq"
    by (simp add: SaveDonation_request_def SaveDonation_endpoint_def)
  have p1: "\<forall>r \<in> set (issued w (snd (SavePerson env c person w))).
              Method r = ''POST'' \<and> request.URL r = baseURL (opts c) @ ?pep"
  proof (cases "length (Accounts person) = 0 \<or> Account.ID (Accounts person ! 0) = ''''")
    case True
    then show ?thesis by (simp add: SavePerson_invalid issued_def)
  next
    case False
    show ?thesis
      unfolding SavePerson_world [OF False]
      by (rule issued_one_request [OF makeRequest_sent])
  qed
  have p2: "issued w (snd (SavePerson env c person w))
              = [build_request c ''POST'' ?pep ''application/x-www-form-urlencoded''
                   (Some (Values_Encode (SavePerson_formData person)))]"
    if "\<not> (length (Accounts person) = 0 \<or> Account.ID (Accounts person ! 0) = '''')"
       "http_NewRequest env ''POST'' (baseURL (opts c) @ ?pep) = None"
       "client c = Some http_Client"
    unfolding SavePerson_world [OF that(1)]
    by (rule makeRequest_issues [OF reqBody_form that(2) that(3)])
  obtain n where "sent (snd (SaveDonation env c donation w))
                  = sent w @ replicate n (SaveDonation_request c donation)"
    using SaveDonation_sent by blast
  then have d1: "\<forall>r \<in> set (issued w (snd (SaveDonation env c donation w))).
       Method r = ''POST''
       \<and> request.URL r = baseURL (opts c)
           @ (if Donation.ID donation = '''' then ''/donations''
              else ''/donations/'' @ PathEscape (Donation.ID donation))
           @ ''?'' @ Values_Encode (SaveDonation_params donation)"
    by (simp add: issued_def SaveDonation_request_def SaveDonation_endpoint_def)
  have d2: "(\<exists>n. issued w (snd (SaveDonation env c donation w)) = replicate (Suc n) ?dreq)
            \<and> (\<not> doRetry (opts c) \<longrightarrow>
                  issued w (snd (SaveDonation env c donation w)) = [?dreq])"
    if "Account.ID (Donation.Account donation) \<noteq> ''''"
       "http_NewRequest env ''POST''
             (baseURL (opts c)
              @ (if Donation.ID donation = '''' then ''/donations''
                 else ''/donations/'' @ PathEscape (Donation.ID donation))
              @ ''?'' @ Values_Encode (SaveDonation_params donation)) = None"
       "client c = Some http_Client"
  proof -
    have "http_NewRequest env ''POST'' (request.URL (SaveDonation_request c donation)) = None"
      using that(2) by (simp add: SaveDonation_endpoint_def)
    from SaveDonation_issues [OF that(1) this that(3), of w]
    show ?thesis unfolding dreq .
  qed
  have s1: "\<forall>r \<in> set (issued w (snd (SaveSubscription env c subscription w))).
              Method r = ''POST'' \<and> request.URL r = baseURL (opts c) @ ?sep"
    unfolding SaveSubscription_world
    by (rule issued_one_request [OF makeRequest_sent])
  have s2: "issued w (snd (SaveSubscription env c subscription w))
              = [build_request c ''POST'' ?sep ''application/json'' (Some jsonS)]"
    if "json_Marshal env (SubscriptionBody subscription) = Inr jsonS"
       "http_NewRequest env ''POST'' (baseURL (opts c) @ ?sep) = None"
       "client c = Some http_Client"
    unfolding SaveSubscription_world
    by (rule makeRequest_issues [OF reqBody_json [OF _ that(1)] that(2) that(3)]) simp
  have c1: "\<forall>r \<in> set (issued w (snd (SaveCampaign env c campaign w))).
              Method r = ''POST'' \<and> request.URL r = baseURL (opts c) @ ?cep"
    unfolding SaveCampaign_world
    by (rule issued_one_request [OF makeRequest_sent])
  have c2: "issued w (snd (SaveCampaign env c campaign w))
              = [build_request c ''POST'' ?cep ''application/json'' (Some jsonC)]"
    if "json_Marshal env (CampaignBody campaign) = Inr jsonC"
       "http_NewRequest env ''POST'' (baseURL (opts c) @ ?cep) = None"
       "client c = Some http_Client"
    unfolding SaveCampaign_world
    by (rule makeRequest_issues [OF reqBody_json [OF _ that(1)] that(2) that(3)]) simp
  from p1 p2 d1 d2 s1 s2 c1 c2 show ?thesis by blast
qed

theorem save_targets_witness:
  \<open>map (\<lambda>r. (Method r, request.URL r))
      (issued w0 (snd (SavePerson (scripted_env [ok body_donation]) test_client test_person w0)))
     = [(''POST'', ''http://127.0.0.1/people'')]
   \<and> map (\<lambda>r. (Method r, request.URL r))
      (issued w0 (snd (SavePerson (scripted_env [ok body_donation]) test_client
                         (test_person\<lparr>Person.ID := ''person 1''\<rparr>) w0)))
     = [(''POST'', ''http://127.0.0.1/people/person%201'')]
   \<and> map (\<lambda>r. (Method r, request.URL r))
      (issued w0 (snd (SaveDonation (scripted_env [ok body_donation]) test_client
                         test_donation w0)))
     = [(''POST'', ''http://127.0.0.1/donations?account_id=acc_123&amount_in_cents=1000'')]
   \<and> map (\<lambda>r. (Method r, request.URL r))
      (issued w0 (snd (SaveDonation (scripted_env [ok body_donation]) test_client
                         (test_donation\<lparr>Donation.ID := ''don/1''\<rparr>) w0)))
     = [(''POST'', ''http://127.0.0.1/donations/don%2F1?account_id=acc_123&amount_in_cents=1000'')]
   \<and> map (\<lambda>r. (Method r, request.URL r))
      (issued w0 (snd (SaveSubscription (scripted_env [ok body_donation]) test_client
                         \<lparr>Subscription.ID = ''''\<rparr> w0)))
     = [(''POST'', ''http://127.0.0.1/subscriptions'')]
   \<and> map (\<lambda>r. (Method r, request.URL r))
      (issued w0 (snd (SaveSubscription (scripted_env [ok body_donation]) test_client
                         \<lparr>Subscription.ID = ''sub 1''\<rparr> w0)))
     = [(''POST'', ''http://127.0.0.1/subscriptions/sub%201'')]
   \<and> map (\<lambda>r. (Method r, request.URL r))
      (issued w0 (snd (SaveCampaign (scripted_env [ok body_donation]) test_client
                         zero_Campaign w0)))
     = [(''POST'', ''http://127.0.0.1/campaigns'')]
   \<and> map (\<lambda>r. (Method r, request.URL r))
      (issued w0 (snd (SaveCampaign (scripted_env [ok body_donation]) test_client
                         (zero_Campaign\<lparr>Campaign.ID := ''camp?1''\<rparr>) w0)))
     = [(''POST'', ''http://127.0.0.1/campaigns/camp%3F1'')]\<close>
proof -
  let ?env = "scripted_env [ok body_donation]"
  have base: "baseURL (opts test_client) = ''http://127.0.0.1''"
    and cl: "client test_client = Some http_Client"
    and nr: "doRetry (opts test_client) = False"
    by code_simp+
  have url: "http_NewRequest ?env m u = None" for m u
    by (simp add: scripted_env_def)
  have person: "Person.ID test_person = ''''" "Accounts test_person = [acc_123]"
               "Account.ID acc_123 = ''acc_123''"
    by code_simp+
  have donation: "Donation.ID test_donation = ''''"
                 "Account.ID (Donation.Account test_donation) = ''acc_123''"
                 "Values_Encode (SaveDonation_params test_donation)
                    = ''account_id=acc_123&amount_in_cents=1000''"
                 "Values_Encode (SaveDonation_params (test_donation\<lparr>Donation.ID := ''don/1''\<rparr>))
                    = ''account_id=acc_123&amount_in_cents=1000''"
    by code_simp+
  have campaign: "Campaign.ID zero_Campaign = ''''"
    by code_simp
  have esc: "PathEscape ''person 1'' = ''person%201''" "PathEscape ''don/1'' = ''don%2F1''"
            "PathEscape ''sub 1'' = ''sub%201''" "PathEscape ''camp?1'' = ''camp%3F1''"
    by code_simp+
  have ms: \<open>json_Marshal ?env (SubscriptionBody \<lparr>Subscription.ID = ''''\<rparr>) = Inr ''{"id":""}''\<close>
           \<open>json_Marshal ?env (SubscriptionBody \<lparr>Subscription.ID = ''sub 1''\<rparr>)
              = Inr ''{"id":"sub 1"}''\<close>
           \<open>json_Marshal ?env (CampaignBody zero_Campaign) = Inr ''{"id":""}''\<close>
           \<open>json_Marshal ?env (CampaignBody (zero_Campaign\<lparr>Campaign.ID := ''camp?1''\<rparr>))
              = Inr ''{"id":"camp?1"}''\<close>
    by code_simp+
  note create = save_targets [where w = w0 and env = ?env and c = test_client
      and person = test_person and donation = test_donation
      and subscription = "\<lparr>Subscription.ID = ''''\<rparr>" and campaign = zero_Campaign,
      of \<open>''{"id":""}''\<close> \<open>''{"id":""}''\<close>]
  note update = save_targets [where w = w0 and env = ?env and c = test_client
      and person = "test_person\<lparr>Person.ID := ''person 1''\<rparr>"
      and donation = "test_donation\<lparr>Donation.ID := ''don/1''\<rparr>"
      and subscription = "\<lparr>Subscription.ID = ''sub 1''\<rparr>"
      and campaign = "zero_Campaign\<lparr>Campaign.ID := ''camp?1''\<rparr>",
      of \<open>''{"id":"sub 1"}''\<close> \<open>''{"id":"camp?1"}''\<close>]
  have p1: "issued w0 (snd (SavePerson ?env test_client test_person w0))
              = [build_request test_client ''POST'' ''/people''
                   ''application/x-www-form-urlencoded''
                   (Some (Values_Encode (SavePerson_formData test_person)))]"
    using create [THEN conjunct2, THEN conjunct1]
    by (simp add: base cl url person)
  have p2: "issued w0 (snd (SavePerson ?env test_client
                              (test_person\<lparr>Person.ID := ''person 1''\<rparr>) w0))
              = [build_request test_client ''POST'' ''/people/person%201''
                   ''application/x-www-form-urlencoded''
                   (Some (Values_Encode
                            (SavePerson_formData (test_person\<lparr>Person.ID := ''person 1''\<rparr>))))]"
    using update [THEN conjunct2, THEN conjunct1]
    by (simp add: base cl url person esc)
  have d1: "issued w0 (snd (SaveDonation ?env test_client test_donation w0))
              = [build_request test_client ''POST''
                   ''/donations?account_id=acc_123&amount_in_cents=1000''
                   ''application/json'' None]"
    using create [THEN conjunct2, THEN conjunct2, THEN conjunct2, THEN conjunct1]
    by (simp add: base cl url nr donation)
  have d2: "issued w0 (snd (SaveDonation ?env test_client
                              (test_donation\<lparr>Donation.ID := ''don/1''\<rparr>) w0))
              = [build_request test_client ''POST''
                   ''/donations/don%2F1?account_id=acc_123&amount_in_cents=1000''
                   ''application/json'' None]"
    using update [THEN conjunct2, THEN conjunct2, THEN conjunct2, THEN conjunct1]
    by (simp add: base cl url nr donation esc)
  have s1: \<open>issued w0 (snd (SaveSubscription ?env test_client \<lparr>Subscription.ID = ''''\<rparr> w0))
              = [build_request test_client ''POST'' ''/subscriptions''
                   ''application/json'' (Some ''{"id":""}'')]\<close>
    using create [THEN conjunct2, THEN conjunct2, THEN conjunct2, THEN conjunct2,
                  THEN conjunct2, THEN conjunct1]
    by (simp add: base cl url ms)
  have s2: \<open>issued w0 (snd (SaveSubscription ?env test_client
                              \<lparr>Subscription.ID = ''sub 1''\<rparr> w0))
              = [build_request test_client ''POST'' ''/subscriptions/sub%201''
                   ''application/json'' (Some ''{"id":"sub 1"}'')]\<close>
    using update [THEN conjunct2, THEN conjunct2, THEN conjunct2, THEN conjunct2,
                  THEN conjunct2, THEN conjunct1]
    by (simp add: base cl url ms esc)
  have c1: \<open>issued w0 (snd (SaveCampaign ?env test_client zero_Campaign w0))
              = [build_request test_client ''POST'' ''/campaigns''
                   ''application/json'' (Some ''{"id":""}'')]\<close>
    using create [THEN conjunct2, THEN conjunct2, THEN conjunct2, THEN conjunct2,
                  THEN conjunct2, THEN conjunct2, THEN conjunct2]
    by (simp add: base cl url ms campaign)
  have c2: \<open>issued w0 (snd (SaveCampaign ?env test_client
                              (zero_Campaign\<lparr>Campaign.ID := ''camp?1''\<rparr>) w0))
              = [build_request test_client ''POST'' ''/campaigns/camp%3F1''
                   ''application/json'' (Some ''{"id":"camp?1"}'')]\<close>
    using update [THEN conjunct2, THEN conjunct2, THEN conjunct2, THEN conjunct2,
                  THEN conjunct2, THEN conjunct2, THEN conjunct2]
    by (simp add: base cl url ms esc)
  show ?thesis
    unfolding p1 p2 d1 d2 s1 s2 c1 c2
    by (simp add: base)
qed

text \<open>
  C5, as amended. \<^verbatim>\<open>SavePerson\<close> fails with the local validation error "missing account
  information" and issues no request if and only if the person has no associated account
  or the ID of its first associated account is empty; \<^verbatim>\<open>SaveDonation\<close> fails the same way
  and issues no request if and only if the donation's account ID is empty.
\<close>

theorem missing_account_validation:
  "((\<exists>e. fst (SavePerson env c person w) = Return zero_Person (Some e)
          \<and> Error e = ''missing account information''
          \<and> sent (snd (SavePerson env c person w)) = sent w)
      = (length (Accounts person) = 0 \<or> Account.ID (Accounts person ! 0) = ''''))
   \<and> ((\<exists>e. fst (SaveDonation env c donation w) = Return zero_Donation (Some e)
          \<and> Error e = ''missing account information''
          \<and> sent (snd (SaveDonation env c donation w)) = sent w)
      = (Account.ID (Donation.Account donation) = ''''))"
proof (intro conjI)
  show "(\<exists>e. fst (SavePerson env c person w) = Return zero_Person (Some e)
          \<and> Error e = ''missing account information''
          \<and> sent (snd (SavePerson env c person w)) = sent w)
      = (length (Accounts person) = 0 \<or> Account.ID (Accounts person ! 0) = '''')"
  proof (cases "length (Accounts person) = 0 \<or> Account.ID (Accounts person ! 0) = ''''")
    case True
    then show ?thesis by (simp add: SavePerson_invalid errors_New_def)
  next
    case False
    let ?ep = "if Person.ID person = '''' then ''/people''
               else ''/people/'' @ PathEscape (Person.ID person)"
    let ?call = "makeRequestWithContentType env c ''POST'' ?ep
                   (ValuesBody (SavePerson_formData person))
                   ''application/x-www-form-urlencoded'' w"
    have "\<not> (\<exists>e. fst (SavePerson env c person w) = Return zero_Person (Some e)
               \<and> Error e = ''missing account information''
               \<and> sent (snd (SavePerson env c person w)) = sent w)"
    proof
      assume "\<exists>e. fst (SavePerson env c person w) = Return zero_Person (Some e)
               \<and> Error e = ''missing account information''
               \<and> sent (snd (SavePerson env c person w)) = sent w"
      then obtain e where e: "fst (SavePerson env c person w) = Return zero_Person (Some e)"
          "Error e = ''missing account information''"
          "sent (snd (SavePerson env c person w)) = sent w"
        by blast
      from e(3) have "sent (snd ?call) = sent w"
        by (simp add: SavePerson_world [OF False])
      from makeRequest_unsent [OF this]
      show False
        using e(1,2)
        by (cases ?call)
           (auto simp add: SavePerson_valid [OF False] fmt_Errorf_w_def)
    qed
    with False show ?thesis by simp
  qed
next
  show "(\<exists>e. fst (SaveDonation env c donation w) = Return zero_Donation (Some e)
          \<and> Error e = ''missing account information''
          \<and> sent (snd (SaveDonation env c donation w)) = sent w)
      = (Account.ID (Donation.Account donation) = '''')"
  proof (cases "Account.ID (Donation.Account donation) = ''''")
    case True
    then show ?thesis by (simp add: SaveDonation_invalid errors_New_def)
  next
    case False
    let ?req = "SaveDonation_request c donation"
    let ?op = "makeRequest env c ''POST'' (SaveDonation_endpoint donation) NoBody"
    obtain r1 w1 where op1: "?op w = (r1, w1)"
      by (cases "?op w") auto
    obtain r2 w2 where op2: "backoff_Retry env ?op (backoff_tries env) 1 w1 = (r2, w2)"
      by (cases "backoff_Retry env ?op (backoff_tries env) 1 w1") auto
    obtain n1 where n1: "sent w2 = sent w1 @ replicate n1 ?req"
      using Retry_sent [of env c "''POST''" "SaveDonation_endpoint donation" "backoff_tries env"
              1 w1] op2
      by (auto simp add: SaveDonation_request_def)
    have first: "sent w1 = sent w \<or> sent w1 = sent w @ [?req]"
      using makeRequest_sent [of env c "''POST''" "SaveDonation_endpoint donation" NoBody
              "''application/json''" w] op1
      by (simp add: makeRequest_def SaveDonation_request_def)
    have "\<not> (\<exists>e. fst (SaveDonation env c donation w) = Return zero_Donation (Some e)
               \<and> Error e = ''missing account information''
               \<and> sent (snd (SaveDonation env c donation w)) = sent w)"
    proof
      assume "\<exists>e. fst (SaveDonation env c donation w) = Return zero_Donation (Some e)
               \<and> Error e = ''missing account information''
               \<and> sent (snd (SaveDonation env c donation w)) = sent w"
      then obtain e where e: "fst (SaveDonation env c donation w) = Return zero_Donation (Some e)"
          "Error e = ''missing account information''"
          "sent (snd (SaveDonation env c donation w)) = sent w"
        by blast
      have world: "snd (SaveDonation env c donation w) = w1
                   \<or> snd (SaveDonation env c donation w) = w2"
        using op1 op2
        by (simp add: SaveDonation_valid [OF False]
                 split: returned.splits option.splits sum.splits prod.splits)
      from world e(3) first n1 have unsent: "sent w1 = sent w"
        by auto
      then have "sent (snd (makeRequestWithContentType env c ''POST''
                   (SaveDonation_endpoint donation) NoBody ''application/json'' w)) = sent w"
        using op1 by (simp add: makeRequest_def)
      from makeRequest_unsent [OF this] op1
      have "(\<exists>p. r1 = Panic p)
            \<or> (\<exists>err. r1 = Return None
                  (Some (fmt_Errorf_w ''failed to create request: '' err)))"
        by (auto simp add: makeRequest_def)
      then show False
        using e(1,2) op1
        by (cases "doRetry (opts c)")
           (auto simp add: SaveDonation_valid [OF False] fmt_Errorf_w_def retry_gate_def)
    qed
    with False show ?thesis by simp
  qed
qed

text \<open>
  C5 as stated fails for \<^verbatim>\<open>SavePerson\<close>: a person whose first account has an empty ID is
  rejected without a request although a later account carries a non-empty ID.
\<close>

theorem missing_account_first_account_only:
  "has_account (zero_Person\<lparr>Accounts := [zero_Account, acc_123]\<rparr>)
   \<and> fst (SavePerson (scripted_env [ok body_donation]) test_client
            (zero_Person\<lparr>Accounts := [zero_Account, acc_123]\<rparr>) w0)
       = Return zero_Person (Some (errors_New ''missing account information''))
   \<and> Error (errors_New ''missing account information'') = ''missing account information''
   \<and> sent (snd (SavePerson (scripted_env [ok body_donation]) test_client
                  (zero_Person\<lparr>Accounts := [zero_Account, acc_123]\<rparr>) w0)) = sent w0"
proof -
  have a: "has_account (zero_Person\<lparr>Accounts := [zero_Account, acc_123]\<rparr>)" by code_simp
  have b: "length (Accounts (zero_Person\<lparr>Accounts := [zero_Account, acc_123]\<rparr>)) = 0
           \<or> Account.ID (Accounts (zero_Person\<lparr>Accounts := [zero_Account, acc_123]\<rparr>) ! 0) = ''''"
    by (simp add: zero_Account_def)
  show ?thesis
    using a by (simp add: SavePerson_invalid [OF b] errors_New_def)
qed

subsection \<open>Pagination parameters\<close>

lemma upperhex_nth:
  assumes "n < 16"
  shows "upperhex ! n \<noteq> CHR ''&'' \<and> upperhex ! n \<noteq> CHR ''=''"
proof -
  have "length upperhex = 16" by (simp add: upperhex_def)
  with assms have "upperhex ! n \<in> set upperhex"
    by (intro nth_mem) simp
  moreover have "CHR ''&'' \<notin> set upperhex" "CHR ''='' \<notin> set upperhex"
    by (simp_all add: upperhex_def)
  ultimately show ?thesis by metis
qed

lemma of_char_div_16: "(of_char c :: nat) div 16 < 16"
proof -
  have "(of_char c :: nat) < 256" by simp
  then show ?thesis by presburger
qed

lemma escape_query_separators:
  "CHR ''&'' \<notin> set (escape s encodeQueryComponent)
   \<and> CHR ''='' \<notin> set (escape s encodeQueryComponent)"
proof (induction s)
  case Nil
  show ?case by simp
next
  case (Cons c s)
  have amp: "shouldEscape CHR ''&'' encodeQueryComponent"
    and eq: "shouldEscape CHR ''='' encodeQueryComponent"
    by (simp_all add: shouldEscape_def)
  have hi: "upperhex ! (of_char c div 16) \<noteq> CHR ''&'' \<and> upperhex ! (of_char c div 16) \<noteq> CHR ''=''"
    by (rule upperhex_nth [OF of_char_div_16])
  have lo: "upperhex ! (of_char c mod 16) \<noteq> CHR ''&'' \<and> upperhex ! (of_char c mod 16) \<noteq> CHR ''=''"
    by (rule upperhex_nth) simp
  show ?case
  proof (cases "shouldEscape c encodeQueryComponent")
    case True
    with Cons hi lo show ?thesis by auto
  next
    case False
    with amp eq have "c \<noteq> CHR ''&''" "c \<noteq> CHR ''=''" by auto
    with False Cons show ?thesis by simp
  qed
qed

lemma QueryEscape_separators [simp]:
  "CHR ''&'' \<notin> set (QueryEscape s)" "CHR ''='' \<notin> set (QueryEscape s)"
  using escape_query_separators [of s] by (simp_all add: QueryEscape_def)

lemma digit_char_range:
  assumes "n < 10"
  shows "CHR ''0'' \<le> digit_char n \<and> digit_char n \<le> CHR ''9''"
  using assms by (simp add: digit_char_def less_eq_char_def)

lemma digits_range: "\<forall>ch \<in> set (digits n). CHR ''0'' \<le> ch \<and> ch \<le> CHR ''9''"
proof (induction n rule: digits.induct)
  case (1 n)
  show ?case
  proof (cases "n < 10")
    case True
    then show ?thesis
      using digit_char_range [of n] by (simp add: digits.simps [of n])
  next
    case False
    have "n mod 10 < 10" by simp
    from digit_char_range [OF this] "1" False show ?thesis
      by (auto simp add: digits.simps [of n])
  qed
qed

lemma escape_unreserved:
  assumes "\<forall>ch \<in> set s. \<not> shouldEscape ch mode"
  shows "escape s mode = s"
  using assms by (induction s) simp_all

lemma QueryEscape_digits [simp]: "QueryEscape (digits n) = digits n"
  unfolding QueryEscape_def
  by (rule escape_unreserved) (use digits_range [of n] in \<open>auto simp add: shouldEscape_def\<close>)

lemma split_at_none:
  assumes "sep \<notin> set s"
  shows "split_at sep s = [s]"
  using assms by (induction s) auto

lemma split_at_append:
  assumes "sep \<notin> set s"
  shows "split_at sep (s @ sep # t) = s # split_at sep t"
  using assms by (induction s) auto

lemma pair_of_literal:
  "CHR ''='' \<notin> set k \<Longrightarrow> pair_of (k @ CHR ''='' # v) = (k, v)"
  by (induction k) (auto simp add: pair_of_def)

lemma digits_separators [simp]:
  "CHR ''&'' \<notin> set (digits n)" "CHR ''='' \<notin> set (digits n)"
  using QueryEscape_separators [of "digits n"] by simp_all

lemma QueryEscape_keys [simp]:
  "QueryEscape ''account_id'' = ''account_id''"
  "QueryEscape ''offset'' = ''offset''"
  "QueryEscape ''limit'' = ''limit''"
  by code_simp+

lemma Values_Encode_account:
  "Values_Encode (Values_Set ''account_id'' a []) = ''account_id='' @ QueryEscape a"
  by (simp add: Values_Encode_def Values_Set_def)

lemma Values_Encode_offset:
  "Values_Encode (Values_Set ''offset'' x (Values_Set ''account_id'' a []))
     = ''account_id='' @ QueryEscape a @ ''&offset='' @ QueryEscape x"
  by (simp add: Values_Encode_def Values_Set_def)

lemma Values_Encode_limit:
  "Values_Encode (Values_Set ''limit'' y (Values_Set ''account_id'' a []))
     = ''account_id='' @ QueryEscape a @ ''&limit='' @ QueryEscape y"
  by (simp add: Values_Encode_def Values_Set_def)

lemma Values_Encode_both:
  "Values_Encode (Values_Set ''limit'' y (Values_Set ''offset'' x (Values_Set ''account_id'' a [])))
     = ''account_id='' @ QueryEscape a @ ''&limit='' @ QueryEscape y @ ''&offset='' @ QueryEscape x"
  by (simp add: Values_Encode_def Values_Set_def)

lemma query_pairs_one:
  assumes "CHR ''&'' \<notin> set A" "CHR ''='' \<notin> set A"
  shows "query_pairs (''account_id='' @ A) = [(''account_id'', A)]"
proof -
  have "split_at CHR ''&'' (''account_id='' @ A) = [''account_id='' @ A]"
    by (rule split_at_none) (simp add: assms)
  moreover have "pair_of (''account_id='' @ A) = (''account_id'', A)"
    using pair_of_literal [of "''account_id''" A] by simp
  ultimately show ?thesis by (simp add: query_pairs_def)
qed

lemma query_pairs_two:
  assumes "CHR ''&'' \<notin> set A" "CHR ''&'' \<notin> set k" "CHR ''='' \<notin> set k" "CHR ''&'' \<notin> set B"
  shows "query_pairs (''account_id='' @ A @ ''&'' @ k @ ''='' @ B)
           = [(''account_id'', A), (k, B)]"
proof -
  have "split_at CHR ''&'' ((''account_id='' @ A) @ CHR ''&'' # (k @ ''='' @ B))
          = (''account_id='' @ A) # split_at CHR ''&'' (k @ ''='' @ B)"
    by (rule split_at_append) (simp add: assms)
  moreover have "split_at CHR ''&'' (k @ ''='' @ B) = [k @ ''='' @ B]"
    by (rule split_at_none) (simp add: assms)
  moreover have "pair_of (''account_id='' @ A) = (''account_id'', A)"
    using pair_of_literal [of "''account_id''" A] by simp
  moreover have "pair_of (k @ ''='' @ B) = (k, B)"
    using pair_of_literal [of k B] assms by simp
  ultimately show ?thesis by (simp add: query_pairs_def)
qed

lemma query_pairs_three:
  assumes "CHR ''&'' \<notin> set A" "CHR ''&'' \<notin> set k" "CHR ''='' \<notin> set k" "CHR ''&'' \<notin> set B"
          "CHR ''&'' \<notin> set k'" "CHR ''='' \<notin> set k'" "CHR ''&'' \<notin> set B'"
  shows "query_pairs (''account_id='' @ A @ ''&'' @ k @ ''='' @ B @ ''&'' @ k' @ ''='' @ B')
           = [(''account_id'', A), (k, B), (k', B')]"
proof -
  have "split_at CHR ''&'' ((''account_id='' @ A) @ CHR ''&'' # (k @ ''='' @ B @ ''&'' @ k' @ ''='' @ B'))
          = (''account_id='' @ A) # split_at CHR ''&'' (k @ ''='' @ B @ ''&'' @ k' @ ''='' @ B')"
    by (rule split_at_append) (simp add: assms)
  moreover have "split_at CHR ''&'' ((k @ ''='' @ B) @ CHR ''&'' # (k' @ ''='' @ B'))
                   = (k @ ''='' @ B) # split_at CHR ''&'' (k' @ ''='' @ B')"
    by (rule split_at_append) (simp add: assms)
  moreover have "split_at CHR ''&'' (k' @ ''='' @ B') = [k' @ ''='' @ B']"
    by (rule split_at_none) (simp add: assms)
  moreover have "pair_of (''account_id='' @ A) = (''account_id'', A)"
    using pair_of_literal [of "''account_id''" A] by simp
  moreover have "pair_of (k @ ''='' @ B) = (k, B)"
    using pair_of_literal [of k B] assms by simp
  moreover have "pair_of (k' @ ''='' @ B') = (k', B')"
    using pair_of_literal [of k' B'] assms by simp
  ultimately show ?thesis by (simp add: query_pairs_def)
qed

lemma list_params_query:
  "query_pairs (Values_Encode (list_params account offset limit))
     = (''account_id'', QueryEscape (Account.ID account))
       # (if limit > 0 then [(''limit'', Itoa limit)] else [])
       @ (if offset > 0 then [(''offset'', Itoa offset)] else [])"
proof -
  have pos: "Itoa i = digits (nat i)" if "i > 0" for i
    using that by (simp add: Itoa_def)
  consider (none) "\<not> offset > 0" "\<not> limit > 0" | (off) "offset > 0" "\<not> limit > 0"
    | (lim) "\<not> offset > 0" "limit > 0" | (both) "offset > 0" "limit > 0"
    by blast
  then show ?thesis
  proof cases
    case none
    then show ?thesis
      using query_pairs_one [of "QueryEscape (Account.ID account)"]
      by (simp add: list_params_def Values_Encode_account)
  next
    case off
    then show ?thesis
      using query_pairs_two [of "QueryEscape (Account.ID account)" "''offset''"
              "digits (nat offset)"]
      by (simp add: list_params_def Values_Encode_offset pos)
  next
    case lim
    then show ?thesis
      using query_pairs_two [of "QueryEscape (Account.ID account)" "''limit''"
              "digits (nat limit)"]
      by (simp add: list_params_def Values_Encode_limit pos)
  next
    case both
    then show ?thesis
      using query_pairs_three [of "QueryEscape (Account.ID account)" "''limit''"
              "digits (nat limit)" "''offset''" "digits (nat offset)"]
      by (simp add: list_params_def Values_Encode_both pos)
  qed
qed

lemma ListPeople_eq:
  "ListPeople env c account offset limit w =
     (case makeRequest env c ''GET''
             (''/people?'' @ Values_Encode (list_params account offset limit)) NoBody w of
           (Panic p, w') \<Rightarrow> (Panic p, w')
         | (Return resp (Some err), w') \<Rightarrow> (Return [] (Some err), w')
         | (Return None None, w') \<Rightarrow> (Panic nil_dereference, w')
         | (Return (Some r) None, w') \<Rightarrow>
             (case json_Unmarshal_People env (Data r) of
                Inl err \<Rightarrow> (Return [] (Some (fmt_Errorf_w ''failed to unmarshal people: '' err)), w')
              | Inr people \<Rightarrow> (Return people None, w')))"
  unfolding ListPeople_def list_params_def Let_def by (rule refl)

lemma ListDonations_eq:
  "ListDonations env c account offset limit w =
     (case makeRequest env c ''GET''
             (''/donations?'' @ Values_Encode (list_params account offset limit)) NoBody w of
           (Panic p, w') \<Rightarrow> (Panic p, w')
         | (Return resp (Some err), w') \<Rightarrow> (Return [] (Some err), w')
         | (Return None None, w') \<Rightarrow> (Panic nil_dereference, w')
         | (Return (Some r) None, w') \<Rightarrow>
             (case json_Unmarshal_Donations env (Data r) of
                Inl err \<Rightarrow>
                  (Return [] (Some (fmt_Errorf_w ''failed to unmarshal donations: '' err)), w')
              | Inr donations \<Rightarrow> (Return donations None, w')))"
  unfolding ListDonations_def list_params_def Let_def by (rule refl)

lemma ListPeople_world:
  "snd (ListPeople env c account offset limit w)
     = snd (makeRequestWithContentType env c ''GET''
              (''/people?'' @ Values_Encode (list_params account offset limit))
              NoBody ''application/json'' w)"
  unfolding ListPeople_eq makeRequest_def
  by (simp split: prod.splits returned.splits option.splits sum.splits)

lemma ListDonations_world:
  "snd (ListDonations env c account offset limit w)
     = snd (makeRequestWithContentType env c ''GET''
              (''/donations?'' @ Values_Encode (list_params account offset limit))
              NoBody ''application/json'' w)"
  unfolding ListDonations_eq makeRequest_def
  by (simp split: prod.splits returned.splits option.splits sum.splits)

lemma list_request_query:
  assumes "sent w' = sent w
           \<or> (\<exists>rb. P rb \<and> sent w' = sent w
                 @ [build_request c m (path @ Values_Encode (list_params account offset limit))
                      ct rb])"
  shows "\<forall>r \<in> set (issued w w').
           \<exists>q. request.URL r = baseURL (opts c) @ path @ q
             \<and> map_of (query_pairs q) ''offset'' = (if offset > 0 then Some (Itoa offset) else None)
             \<and> map_of (query_pairs q) ''limit'' = (if limit > 0 then Some (Itoa limit) else None)"
proof
  fix r assume "r \<in> set (issued w w')"
  with assms have "request.URL r
      = baseURL (opts c) @ path @ Values_Encode (list_params account offset limit)"
    by (auto simp add: issued_def)
  moreover have "map_of (query_pairs (Values_Encode (list_params account offset limit))) ''offset''
                   = (if offset > 0 then Some (Itoa offset) else None)"
    by (simp add: list_params_query)
  moreover have "map_of (query_pairs (Values_Encode (list_params account offset limit))) ''limit''
                   = (if limit > 0 then Some (Itoa limit) else None)"
    by (simp add: list_params_query)
  ultimately show "\<exists>q. request.URL r = baseURL (opts c) @ path @ q
             \<and> map_of (query_pairs q) ''offset'' = (if offset > 0 then Some (Itoa offset) else None)
             \<and> map_of (query_pairs q) ''limit'' = (if limit > 0 then Some (Itoa limit) else None)"
    by blast
qed

lemma list_params_Encode:
  "Values_Encode (list_params account offset limit) = list_query account offset limit"
proof -
  have pos: "Itoa i = digits (nat i)" if "i > 0" for i
    using that by (simp add: Itoa_def)
  consider (none) "\<not> offset > 0" "\<not> limit > 0" | (off) "offset > 0" "\<not> limit > 0"
    | (lim) "\<not> offset > 0" "limit > 0" | (both) "offset > 0" "limit > 0"
    by blast
  then show ?thesis
  proof cases
    case none
    then show ?thesis
      by (simp add: list_params_def list_query_def Values_Encode_account)
  next
    case off
    then show ?thesis
      by (simp add: list_params_def list_query_def Values_Encode_offset pos)
  next
    case lim
    then show ?thesis
      by (simp add: list_params_def list_query_def Values_Encode_limit pos)
  next
    case both
    then show ?thesis
      by (simp add: list_params_def list_query_def Values_Encode_both pos)
  qed
qed

text \<open>
  C9. For the list calls that take offset and limit (\<^verbatim>\<open>ListPeople\<close>, \<^verbatim>\<open>ListDonations\<close>):
  in every request issued, the query string has no offset parameter when offset is zero or
  negative and carries offset as its decimal representation when it is positive; likewise
  for limit. And the request is issued: when the URL is accepted and the client has a
  transport, the call issues exactly one GET whose query string is \<open>list_query\<close>, which
  reads back as account_id, then limit and offset only when positive, in decimal.
\<close>

theorem pagination_parameters:
  "(\<forall>r \<in> set (issued w (snd (ListPeople env c account offset limit w))).
      \<exists>q. request.URL r = baseURL (opts c) @ ''/people?'' @ q
        \<and> map_of (query_pairs q) ''offset'' = (if offset > 0 then Some (Itoa offset) else None)
        \<and> map_of (query_pairs q) ''limit'' = (if limit > 0 then Some (Itoa limit) else None))
   \<and> (http_NewRequest env ''GET''
          (baseURL (opts c) @ ''/people?'' @ list_query account offset limit) = None
        \<and> client c = Some http_Client \<longrightarrow>
       issued w (snd (ListPeople env c account offset limit w))
         = [build_request c ''GET'' (''/people?'' @ list_query account offset limit)
              ''application/json'' None])
   \<and> (\<forall>r \<in> set (issued w (snd (ListDonations env c account offset limit w))).
      \<exists>q. request.URL r = baseURL (opts c) @ ''/donations?'' @ q
        \<and> map_of (query_pairs q) ''offset'' = (if offset > 0 then Some (Itoa offset) else None)
        \<and> map_of (query_pairs q) ''limit'' = (if limit > 0 then Some (Itoa limit) else None))
   \<and> (http_NewRequest env ''GET''
          (baseURL (opts c) @ ''/donations?'' @ list_query account offset limit) = None
        \<and> client c = Some http_Client \<longrightarrow>
       issued w (snd (ListDonations env c account offset limit w))
         = [build_request c ''GET'' (''/donations?'' @ list_query account offset limit)
              ''application/json'' None])
   \<and> query_pairs (list_query account offset limit)
       = (''account_id'', QueryEscape (Account.ID account))
         # (if limit > 0 then [(''limit'', Itoa limit)] else [])
         @ (if offset > 0 then [(''offset'', Itoa offset)] else [])"
proof -
  have p1: "\<forall>r \<in> set (issued w (snd (ListPeople env c account offset limit w))).
      \<exists>q. request.URL r = baseURL (opts c) @ ''/people?'' @ q
        \<and> map_of (query_pairs q) ''offset'' = (if offset > 0 then Some (Itoa offset) else None)
        \<and> map_of (query_pairs q) ''limit'' = (if limit > 0 then Some (Itoa limit) else None)"
    unfolding ListPeople_world
    by (rule list_request_query [OF makeRequest_sent])
  have p2: "issued w (snd (ListPeople env c account offset limit w))
         = [build_request c ''GET'' (''/people?'' @ list_query account offset limit)
              ''application/json'' None]"
    if "http_NewRequest env ''GET''
          (baseURL (opts c) @ ''/people?'' @ list_query account offset limit) = None"
       "client c = Some http_Client"
    unfolding ListPeople_world list_params_Encode
    by (rule makeRequest_issues [OF reqBody_NoBody that])
  have d1: "\<forall>r \<in> set (issued w (snd (ListDonations env c account offset limit w))).
      \<exists>q. request.URL r = baseURL (opts c) @ ''/donations?'' @ q
        \<and> map_of (query_pairs q) ''offset'' = (if offset > 0 then Some (Itoa offset) else None)
        \<and> map_of (query_pairs q) ''limit'' = (if limit > 0 then Some (Itoa limit) else None)"
    unfolding ListDonations_world
    by (rule list_request_query [OF makeRequest_sent])
  have d2: "issued w (snd (ListDonations env c account offset limit w))
         = [build_request c ''GET'' (''/donations?'' @ list_query account offset limit)
              ''application/json'' None]"
    if "http_NewRequest env ''GET''
          (baseURL (opts c) @ ''/donations?'' @ list_query account offset limit) = None"
       "client c = Some http_Client"
    unfolding ListDonations_world list_params_Encode
    by (rule makeRequest_issues [OF reqBody_NoBody that])
  have q: "query_pairs (list_query account offset limit)
       = (''account_id'', QueryEscape (Account.ID account))
         # (if limit > 0 then [(''limit'', Itoa limit)] else [])
         @ (if offset > 0 then [(''offset'', Itoa offset)] else [])"
    using list_params_query [of account offset limit]
    by (simp only: list_params_Encode)
  from p1 p2 d1 d2 q show ?thesis by blast
qed

theorem pagination_parameters_witness:
  "map request.URL (issued w0 (snd (ListPeople (scripted_env [ok body_empty]) test_client
                                      acc_123 10 20 w0)))
     = [''http://127.0.0.1/people?account_id=acc_123&limit=20&offset=10'']
   \<and> query_pairs ''account_id=acc_123&limit=20&offset=10''
     = [(''account_id'', ''acc_123''), (''limit'', ''20''), (''offset'', ''10'')]
   \<and> map request.URL (issued w0 (snd (ListDonations (scripted_env [ok body_empty]) test_client
                                      acc_123 10 20 w0)))
     = [''http://127.0.0.1/donations?account_id=acc_123&limit=20&offset=10'']
   \<and> map request.URL (issued w0 (snd (ListPeople (scripted_env [ok body_empty]) test_client
                                      acc_123 10 0 w0)))
     = [''http://127.0.0.1/people?account_id=acc_123&offset=10'']
   \<and> query_pairs ''account_id=acc_123&offset=10''
     = [(''account_id'', ''acc_123''), (''offset'', ''10'')]
   \<and> map request.URL (issued w0 (snd (ListDonations (scripted_env [ok body_empty]) test_client
                                      acc_123 (- 5) 25 w0)))
     = [''http://127.0.0.1/donations?account_id=acc_123&limit=25'']
   \<and> query_pairs ''account_id=acc_123&limit=25''
     = [(''account_id'', ''acc_123''), (''limit'', ''25'')]
   \<and> map request.URL (issued w0 (snd (ListPeople (scripted_env [ok body_empty]) test_client
                                      acc_123 0 0 w0)))
     = [''http://127.0.0.1/people?account_id=acc_123'']
   \<and> query_pairs ''account_id=acc_123'' = [(''account_id'', ''acc_123'')]"
proof -
  let ?env = "scripted_env [ok body_empty]"
  have base: "baseURL (opts test_client) = ''http://127.0.0.1''"
    and cl: "client test_client = Some http_Client"
    by code_simp+
  have url: "http_NewRequest ?env m u = None" for m u
    by (simp add: scripted_env_def)
  have lq: "list_query acc_123 10 20 = ''account_id=acc_123&limit=20&offset=10''"
           "list_query acc_123 10 0 = ''account_id=acc_123&offset=10''"
           "list_query acc_123 (- 5) 25 = ''account_id=acc_123&limit=25''"
           "list_query acc_123 0 0 = ''account_id=acc_123''"
    by code_simp+
  have ev: "QueryEscape (Account.ID acc_123) = ''acc_123''"
           "Itoa 10 = ''10''" "Itoa 20 = ''20''" "Itoa 25 = ''25''"
    by code_simp+
  note both = pagination_parameters [where w = w0 and env = ?env and c = test_client
                and account = acc_123 and offset = 10 and limit = 20]
  note offs = pagination_parameters [where w = w0 and env = ?env and c = test_client
                and account = acc_123 and offset = 10 and limit = 0]
  note lim = pagination_parameters [where w = w0 and env = ?env and c = test_client
                and account = acc_123 and offset = "- 5" and limit = 25]
  note none = pagination_parameters [where w = w0 and env = ?env and c = test_client
                and account = acc_123 and offset = 0 and limit = 0]
  have a1: "issued w0 (snd (ListPeople ?env test_client acc_123 10 20 w0))
              = [build_request test_client ''GET''
                   (''/people?'' @ ''account_id=acc_123&limit=20&offset=10'')
                   ''application/json'' None]"
    using both [THEN conjunct2, THEN conjunct1] by (simp only: url cl lq simp_thms)
  have a2: "query_pairs ''account_id=acc_123&limit=20&offset=10''
              = [(''account_id'', ''acc_123''), (''limit'', ''20''), (''offset'', ''10'')]"
    using both [THEN conjunct2, THEN conjunct2, THEN conjunct2, THEN conjunct2]
    by (simp add: lq ev)
  have a3: "issued w0 (snd (ListDonations ?env test_client acc_123 10 20 w0))
              = [build_request test_client ''GET''
                   (''/donations?'' @ ''account_id=acc_123&limit=20&offset=10'')
                   ''application/json'' None]"
    using both [THEN conjunct2, THEN conjunct2, THEN conjunct2, THEN conjunct1]
    by (simp only: url cl lq simp_thms)
  have b1: "issued w0 (snd (ListPeople ?env test_client acc_123 10 0 w0))
              = [build_request test_client ''GET''
                   (''/people?'' @ ''account_id=acc_123&offset=10'')
                   ''application/json'' None]"
    using offs [THEN conjunct2, THEN conjunct1] by (simp only: url cl lq simp_thms)
  have b2: "query_pairs ''account_id=acc_123&offset=10''
              = [(''account_id'', ''acc_123''), (''offset'', ''10'')]"
    using offs [THEN conjunct2, THEN conjunct2, THEN conjunct2, THEN conjunct2]
    by (simp add: lq ev)
  have c1: "issued w0 (snd (ListDonations ?env test_client acc_123 (- 5) 25 w0))
              = [build_request test_client ''GET''
                   (''/donations?'' @ ''account_id=acc_123&limit=25'')
                   ''application/json'' None]"
    using lim [THEN conjunct2, THEN conjunct2, THEN conjunct2, THEN conjunct1]
    by (simp only: url cl lq simp_thms)
  have c2: "query_pairs ''account_id=acc_123&limit=25''
              = [(''account_id'', ''acc_123''), (''limit'', ''25'')]"
    using lim [THEN conjunct2, THEN conjunct2, THEN conjunct2, THEN conjunct2]
    by (simp add: lq ev)
  have d1: "issued w0 (snd (ListPeople ?env test_client acc_123 0 0 w0))
              = [build_request test_client ''GET''
                   (''/people?'' @ ''account_id=acc_123'')
                   ''application/json'' None]"
    using none [THEN conjunct2, THEN conjunct1] by (simp only: url cl lq simp_thms)
  have d2: "query_pairs ''account_id=acc_123'' = [(''account_id'', ''acc_123'')]"
    using none [THEN conjunct2, THEN conjunct2, THEN conjunct2, THEN conjunct2]
    by (simp add: lq ev)
  show ?thesis
    unfolding a1 a3 b1 c1 d1
    using a2 b2 c2 d2 by (simp add: base)
qed

end
